theory Spec2Isabelle
  imports Complex_Main "HOL-Library.Monad_Syntax" "HOL-Library.State_Monad"
begin

section \<open>Double-precision arithmetic\<close>

text \<open>
  \<open>predicates.cpp\<close> computes with \<open>tREAL\<close>, the IEEE-754 binary64 type. A value is
  modelled as a finite number \<open>m * 2 ^ e\<close> in canonical form (\<open>m\<close> odd, or \<open>m = 0\<close> and
  \<open>e = 0\<close>), an infinity, or a NaN. The two zeros are one value and so are all NaNs:
  no operation the predicates use (addition, subtraction, multiplication, negation,
  comparison) tells \<open>+0\<close> from \<open>-0\<close> except in the sign of a zero result.
  Every operation rounds its exact result to the nearest double, ties to even, with
  gradual underflow below \<open>2 ^ -1022\<close> and overflow to infinity from \<open>2 ^ 1024\<close> on;
  a sum with a zero operand is the other operand.
\<close>

datatype tREAL = Fin int int | PInf | NInf | NaN

function bitlen :: "int \<Rightarrow> int" where
  "bitlen m = (if m \<le> 0 then 0 else 1 + bitlen (m div 2))"
  by pat_completeness auto
termination
  by (relation "measure nat") auto

declare bitlen.simps [simp del]

function normd :: "int \<Rightarrow> int \<Rightarrow> tREAL" where
  "normd m e = (if m = 0 then Fin 0 0 else if odd m then Fin m e else normd (m div 2) (e + 1))"
  by pat_completeness auto
termination
  by (relation "measure (\<lambda>(m, e). nat \<bar>m\<bar>)") auto

declare normd.simps [simp del]

definition overflow_check :: "int \<Rightarrow> int \<Rightarrow> tREAL" where
  "overflow_check m e =
     (if m = 0 then Fin 0 0
      else if bitlen \<bar>m\<bar> + e > 1024 then (if m > 0 then PInf else NInf)
      else normd m e)"

definition rnd :: "int \<Rightarrow> int \<Rightarrow> tREAL" where
  "rnd m e =
     (let k = max (bitlen \<bar>m\<bar> - 53) (- 1074 - e) in
      if k \<le> 0 then overflow_check m e
      else
        let p = 2 ^ nat k; q = m div p; r = m mod p; h = p div 2;
            q' = (if r < h \<or> (r = h \<and> even q) then q else q + 1)
        in overflow_check q' (e + k))"

definition dbl :: "int \<Rightarrow> tREAL" where
  "dbl n = rnd n 0"

fun fneg :: "tREAL \<Rightarrow> tREAL" where
  "fneg (Fin m e) = Fin (- m) e"
| "fneg PInf = NInf"
| "fneg NInf = PInf"
| "fneg NaN = NaN"

fun fadd :: "tREAL \<Rightarrow> tREAL \<Rightarrow> tREAL" where
  "fadd (Fin m1 e1) (Fin m2 e2) =
     (if m1 = 0 \<and> m2 = 0 then Fin 0 0
      else if m1 = 0 then Fin m2 e2
      else if m2 = 0 then Fin m1 e1
      else let e = min e1 e2 in rnd (m1 * 2 ^ nat (e1 - e) + m2 * 2 ^ nat (e2 - e)) e)"
| "fadd NaN _ = NaN"
| "fadd _ NaN = NaN"
| "fadd PInf NInf = NaN"
| "fadd NInf PInf = NaN"
| "fadd PInf _ = PInf"
| "fadd _ PInf = PInf"
| "fadd NInf _ = NInf"
| "fadd _ NInf = NInf"

definition fsub :: "tREAL \<Rightarrow> tREAL \<Rightarrow> tREAL" where
  "fsub a b = fadd a (fneg b)"

fun fmul :: "tREAL \<Rightarrow> tREAL \<Rightarrow> tREAL" where
  "fmul (Fin m1 e1) (Fin m2 e2) = rnd (m1 * m2) (e1 + e2)"
| "fmul NaN _ = NaN"
| "fmul _ NaN = NaN"
| "fmul (Fin m e) PInf = (if m = 0 then NaN else if m > 0 then PInf else NInf)"
| "fmul (Fin m e) NInf = (if m = 0 then NaN else if m > 0 then NInf else PInf)"
| "fmul PInf (Fin m e) = (if m = 0 then NaN else if m > 0 then PInf else NInf)"
| "fmul NInf (Fin m e) = (if m = 0 then NaN else if m > 0 then NInf else PInf)"
| "fmul PInf PInf = PInf"
| "fmul PInf NInf = NInf"
| "fmul NInf PInf = NInf"
| "fmul NInf NInf = PInf"

text \<open>The comparisons of C: each is false when an operand is a NaN, except \<open>!=\<close>.\<close>

fun flt :: "tREAL \<Rightarrow> tREAL \<Rightarrow> bool" where
  "flt (Fin m1 e1) (Fin m2 e2) =
     (let e = min e1 e2 in m1 * 2 ^ nat (e1 - e) < m2 * 2 ^ nat (e2 - e))"
| "flt NaN _ = False"
| "flt _ NaN = False"
| "flt _ NInf = False"
| "flt NInf _ = True"
| "flt PInf _ = False"
| "flt _ PInf = True"

fun feq :: "tREAL \<Rightarrow> tREAL \<Rightarrow> bool" where
  "feq (Fin m1 e1) (Fin m2 e2) =
     (let e = min e1 e2 in m1 * 2 ^ nat (e1 - e) = m2 * 2 ^ nat (e2 - e))"
| "feq PInf PInf = True"
| "feq NInf NInf = True"
| "feq _ _ = False"

definition fne :: "tREAL \<Rightarrow> tREAL \<Rightarrow> bool" where
  "fne a b = (\<not> feq a b)"

definition fgt :: "tREAL \<Rightarrow> tREAL \<Rightarrow> bool" where
  "fgt a b = flt b a"

definition fle :: "tREAL \<Rightarrow> tREAL \<Rightarrow> bool" where
  "fle a b = (flt a b \<or> feq a b)"

definition fge :: "tREAL \<Rightarrow> tREAL \<Rightarrow> bool" where
  "fge a b = fle b a"

text \<open>The exact real number a finite double stands for (0 for the others).\<close>

fun valof :: "tREAL \<Rightarrow> real" where
  "valof (Fin m e) = (if e \<ge> 0 then of_int m * 2 ^ nat e else of_int m / 2 ^ nat (- e))"
| "valof _ = 0"

fun is_finite :: "tREAL \<Rightarrow> bool" where
  "is_finite (Fin m e) = True"
| "is_finite _ = False"

section \<open>The error-bound table\<close>

record predicates =
  epsilon :: tREAL
  splitter :: tREAL
  resulterrbound :: tREAL
  ccwerrboundA :: tREAL
  ccwerrboundB :: tREAL
  ccwerrboundC :: tREAL
  o3derrboundA :: tREAL
  o3derrboundB :: tREAL
  o3derrboundC :: tREAL
  iccerrboundA :: tREAL
  iccerrboundB :: tREAL
  iccerrboundC :: tREAL
  isperrboundA :: tREAL
  isperrboundB :: tREAL
  isperrboundC :: tREAL




section \<open>The arithmetic macros\<close>

text \<open>
  \<open>predicates.h\<close>, which defines the macros that \<open>predicates.cpp\<close> expands, is not
  among the sources. Each function of \<open>predicates.cpp\<close> declares the temporaries its
  macros assign (\<open>bvirt\<close>, \<open>avirt\<close>, \<open>bround\<close>, \<open>around\<close> for the sums; \<open>c\<close>, \<open>abig\<close>,
  \<open>ahi\<close>, \<open>alo\<close>, \<open>bhi\<close>, \<open>blo\<close>, \<open>err1\<close>, \<open>err2\<close>, \<open>err3\<close> for the products; \<open>_i\<close>,
  \<open>_j\<close>, \<open>_0\<close> for the two-word operations), and the macro bodies below assign exactly
  these. A macro with output parameters is a function returning them, the leading
  (most significant) word first.
\<close>

abbreviation zero :: tREAL where
  "zero \<equiv> Fin 0 0"

text \<open>Modelled from the spec: macro \<open>Absolute\<close> of \<open>predicates.h\<close>, the magnitude of a value.\<close>

definition Absolute :: "tREAL \<Rightarrow> tREAL" where
  "Absolute a = (if fge a zero then a else fneg a)"

text \<open>Modelled from the spec: macro \<open>Fast_Two_Sum\<close> (section 4.2), the sum and its roundoff
  when the first operand is the larger in magnitude.\<close>

definition Fast_Two_Sum :: "tREAL \<Rightarrow> tREAL \<Rightarrow> tREAL \<times> tREAL" where
  "Fast_Two_Sum a b =
     (let x = fadd a b;
          bvirt = fsub x a;
          y = fsub b bvirt
      in (x, y))"

text \<open>Modelled from the spec: macro \<open>Two_Sum\<close> (section 4.2), the sum and its roundoff for
  operands in any order, by virtual subtraction.\<close>

definition Two_Sum :: "tREAL \<Rightarrow> tREAL \<Rightarrow> tREAL \<times> tREAL" where
  "Two_Sum a b =
     (let x = fadd a b;
          bvirt = fsub x a;
          avirt = fsub x bvirt;
          bround = fsub b bvirt;
          around = fsub a avirt;
          y = fadd around bround
      in (x, y))"

text \<open>Modelled from the spec: macro \<open>Two_Diff_Tail\<close> (section 4.2), the roundoff of a
  difference \<open>x\<close> already computed.\<close>

definition Two_Diff_Tail :: "tREAL \<Rightarrow> tREAL \<Rightarrow> tREAL \<Rightarrow> tREAL" where
  "Two_Diff_Tail a b x =
     (let bvirt = fsub a x;
          avirt = fadd x bvirt;
          bround = fsub bvirt b;
          around = fsub a avirt
      in fadd around bround)"

text \<open>Modelled from the spec: macro \<open>Two_Diff\<close> (section 4.2), the difference and its
  roundoff.\<close>

definition Two_Diff :: "tREAL \<Rightarrow> tREAL \<Rightarrow> tREAL \<times> tREAL" where
  "Two_Diff a b = (let x = fsub a b in (x, Two_Diff_Tail a b x))"

text \<open>Modelled from the spec: macro \<open>tSPLIT\<close> (section 4.2), the high and low halves of a
  value, obtained with the member \<open>splitter\<close>.\<close>

definition tSPLIT :: "tREAL \<Rightarrow> tREAL \<Rightarrow> tREAL \<times> tREAL" where
  "tSPLIT spl a =
     (let c = fmul spl a;
          abig = fsub c a;
          ahi = fsub c abig;
          alo = fsub a ahi
      in (ahi, alo))"

text \<open>Modelled from the spec: macro \<open>Two_Product_Presplit\<close> (section 4.2), the product and
  its roundoff when the halves \<open>bhi\<close>, \<open>blo\<close> of the second operand are at hand.\<close>

definition Two_Product_Presplit ::
  "tREAL \<Rightarrow> tREAL \<Rightarrow> tREAL \<Rightarrow> tREAL \<Rightarrow> tREAL \<Rightarrow> tREAL \<times> tREAL" where
  "Two_Product_Presplit spl a b bhi blo =
     (let x = fmul a b;
          (ahi, alo) = tSPLIT spl a;
          err1 = fsub x (fmul ahi bhi);
          err2 = fsub err1 (fmul alo bhi);
          err3 = fsub err2 (fmul ahi blo);
          y = fsub (fmul alo blo) err3
      in (x, y))"

text \<open>Modelled from the spec: macro \<open>Two_Product\<close> (section 4.2), the product and its
  roundoff; it splits both operands.\<close>

definition Two_Product :: "tREAL \<Rightarrow> tREAL \<Rightarrow> tREAL \<Rightarrow> tREAL \<times> tREAL" where
  "Two_Product spl a b =
     (let x = fmul a b;
          (ahi, alo) = tSPLIT spl a;
          (bhi, blo) = tSPLIT spl b;
          err1 = fsub x (fmul ahi bhi);
          err2 = fsub err1 (fmul alo bhi);
          err3 = fsub err2 (fmul ahi blo);
          y = fsub (fmul alo blo) err3
      in (x, y))"

text \<open>Modelled from the spec: macro \<open>Square\<close> (section 4.2), \<open>Two_Product\<close> specialised to
  equal operands.\<close>

definition Square :: "tREAL \<Rightarrow> tREAL \<Rightarrow> tREAL \<times> tREAL" where
  "Square spl a =
     (let x = fmul a a;
          (ahi, alo) = tSPLIT spl a;
          err1 = fsub x (fmul ahi ahi);
          err3 = fsub err1 (fmul (fadd ahi ahi) alo);
          y = fsub (fmul alo alo) err3
      in (x, y))"

text \<open>Modelled from the spec: macros \<open>Two_One_Sum\<close> and \<open>Two_One_Diff\<close>, a two-word value
  plus or minus one word, through the temporary \<open>_i\<close>.\<close>

definition Two_One_Sum :: "tREAL \<Rightarrow> tREAL \<Rightarrow> tREAL \<Rightarrow> tREAL \<times> tREAL \<times> tREAL" where
  "Two_One_Sum a1 a0 b =
     (let (i, x0) = Two_Sum a0 b;
          (x2, x1) = Two_Sum a1 i
      in (x2, x1, x0))"

definition Two_One_Diff :: "tREAL \<Rightarrow> tREAL \<Rightarrow> tREAL \<Rightarrow> tREAL \<times> tREAL \<times> tREAL" where
  "Two_One_Diff a1 a0 b =
     (let (i, x0) = Two_Diff a0 b;
          (x2, x1) = Two_Sum a1 i
      in (x2, x1, x0))"

text \<open>Modelled from the spec: macros \<open>Two_Two_Sum\<close> and \<open>Two_Two_Diff\<close>, the sum and the
  difference of two two-word values as four words, through the temporaries \<open>_j\<close>
  and \<open>_0\<close>.\<close>

definition Two_Two_Sum ::
  "tREAL \<Rightarrow> tREAL \<Rightarrow> tREAL \<Rightarrow> tREAL \<Rightarrow> tREAL \<times> tREAL \<times> tREAL \<times> tREAL" where
  "Two_Two_Sum a1 a0 b1 b0 =
     (let (j, r0, x0) = Two_One_Sum a1 a0 b0;
          (x3, x2, x1) = Two_One_Sum j r0 b1
      in (x3, x2, x1, x0))"

definition Two_Two_Diff ::
  "tREAL \<Rightarrow> tREAL \<Rightarrow> tREAL \<Rightarrow> tREAL \<Rightarrow> tREAL \<times> tREAL \<times> tREAL \<times> tREAL" where
  "Two_Two_Diff a1 a0 b1 b0 =
     (let (j, r0, x0) = Two_One_Diff a1 a0 b0;
          (x3, x2, x1) = Two_One_Diff j r0 b1
      in (x3, x2, x1, x0))"

section \<open>Expansions\<close>

text \<open>
  An expansion \<open>(elen, e)\<close> is the list of its \<open>elen\<close> components, least significant
  first. The functions that fill their output \<open>h\<close> front to back (\<open>h[hindex++] = ...\<close>)
  return the list of the components written; the \<open>int\<close> that the C++ function returns is the
  length of that list. The functions that reread and overwrite \<open>h\<close> take the caller's buffer
  and fail with \<open>None\<close> on a write outside it. The source reads \<open>e[++eindex]\<close> into
  \<open>enow\<close> once more after the last component and never uses that value: \<open>rd\<close> yields a
  NaN there.
\<close>

definition rd :: "tREAL list \<Rightarrow> nat \<Rightarrow> tREAL" where
  "rd xs i = (if i < length xs then xs ! i else NaN)"

definition wr :: "tREAL list \<Rightarrow> nat \<Rightarrow> tREAL \<Rightarrow> tREAL list option" where
  "wr h i v = (if i < length h then Some (h[i := v]) else None)"

text \<open>\<open>if (hh != 0.0) h[hindex++] = hh;\<close>\<close>

definition put_nonzero :: "tREAL list \<Rightarrow> tREAL \<Rightarrow> tREAL list" where
  "put_nonzero h hh = (if fne hh zero then h @ [hh] else h)"

text \<open>\<open>if ((Q != 0.0) || (hindex == 0)) h[hindex++] = Q;\<close>\<close>

definition put_last :: "tREAL list \<Rightarrow> tREAL \<Rightarrow> tREAL list" where
  "put_last h Q = (if fne Q zero \<or> length h = 0 then h @ [Q] else h)"

subsection \<open>grow_expansion\<close>

fun grow_loop :: "tREAL list \<Rightarrow> tREAL \<Rightarrow> tREAL list \<Rightarrow> tREAL \<times> tREAL list" where
  "grow_loop [] Q h = (Q, h)"
| "grow_loop (enow # es) Q h =
     (let (Qnew, hh) = Two_Sum Q enow in grow_loop es Qnew (h @ [hh]))"

definition grow_expansion :: "tREAL list \<Rightarrow> tREAL \<Rightarrow> tREAL list" where
  "grow_expansion e b = (let (Q, h) = grow_loop e b [] in h @ [Q])"



subsection \<open>expansion_sum and its zero-eliminating variants\<close>

text \<open>The first loop, \<open>for (hindex = 0; hindex < elen; hindex++)\<close>, writing \<open>h[hindex]\<close>.\<close>

function es_first ::
  "tREAL list \<Rightarrow> nat \<Rightarrow> tREAL \<Rightarrow> tREAL list \<Rightarrow> (tREAL \<times> tREAL list) option" where
  "es_first e hindex Q h =
     (if hindex < length e then
        (let hnow = rd e hindex;
             (Qnew, y) = Two_Sum Q hnow
         in case wr h hindex y of
              None \<Rightarrow> None
            | Some h' \<Rightarrow> es_first e (hindex + 1) Qnew h')
      else Some (Q, h))"
  by pat_completeness auto
termination
  by (relation "measure (\<lambda>(e, hindex, Q, h). length e - hindex)") auto

declare es_first.simps [simp del]

text \<open>The inner loop, \<open>for (hindex = findex; hindex <= hlast; hindex++)\<close>, rereading and
  overwriting \<open>h[hindex]\<close>.\<close>

function es_inner ::
  "nat \<Rightarrow> nat \<Rightarrow> tREAL \<Rightarrow> tREAL list \<Rightarrow> (tREAL \<times> tREAL list) option" where
  "es_inner hlast hindex Q h =
     (if hindex \<le> hlast then
        (let hnow = rd h hindex;
             (Qnew, y) = Two_Sum Q hnow
         in case wr h hindex y of
              None \<Rightarrow> None
            | Some h' \<Rightarrow> es_inner hlast (hindex + 1) Qnew h')
      else Some (Q, h))"
  by pat_completeness auto
termination
  by (relation "measure (\<lambda>(hlast, hindex, Q, h). Suc hlast - hindex)") auto

declare es_inner.simps [simp del]

text \<open>The outer loop, \<open>for (findex = 1; findex < flen; findex++)\<close>, ending each round with
  \<open>h[++hlast] = Q\<close>.\<close>

function es_outer ::
  "tREAL list \<Rightarrow> nat \<Rightarrow> nat \<Rightarrow> tREAL list \<Rightarrow> (nat \<times> tREAL list) option" where
  "es_outer f findex hlast h =
     (if findex < length f then
        (case es_inner hlast findex (rd f findex) h of
           None \<Rightarrow> None
         | Some (Q, h') \<Rightarrow>
             (case wr h' (hlast + 1) Q of
                None \<Rightarrow> None
              | Some h'' \<Rightarrow> es_outer f (findex + 1) (hlast + 1) h''))
      else Some (hlast, h))"
  by pat_completeness auto
termination
  by (relation "measure (\<lambda>(f, findex, hlast, h). length f - findex)") auto

declare es_outer.simps [simp del]

text \<open>The part that \<open>expansion_sum\<close> and \<open>expansion_sum_zeroelim1\<close> share: it yields
  \<open>hlast\<close> and the buffer.\<close>

definition es_body :: "tREAL list \<Rightarrow> tREAL list \<Rightarrow> tREAL list \<Rightarrow> (nat \<times> tREAL list) option" where
  "es_body e f h =
     do {
       (Q, h1) \<leftarrow> es_first e 0 (rd f 0) h;
       h2 \<leftarrow> wr h1 (length e) Q;
       es_outer f 1 (length e) h2
     }"

definition expansion_sum ::
  "tREAL list \<Rightarrow> tREAL list \<Rightarrow> tREAL list \<Rightarrow> (nat \<times> tREAL list) option" where
  "expansion_sum e f h =
     do {
       (hlast, h') \<leftarrow> es_body e f h;
       Some (hlast + 1, h')
     }"











subsection \<open>fast_expansion_sum_zeroelim\<close>

text \<open>The test \<open>(fnow > enow) == (fnow > -enow)\<close> that takes the next component from \<open>e\<close>.\<close>

definition e_first :: "tREAL \<Rightarrow> tREAL \<Rightarrow> bool" where
  "e_first enow fnow = (fgt fnow enow = fgt fnow (fneg enow))"

text \<open>\<open>while ((eindex < elen) && (findex < flen))\<close>\<close>

function fesz_merge ::
  "tREAL list \<Rightarrow> tREAL list \<Rightarrow> nat \<Rightarrow> nat \<Rightarrow> tREAL \<Rightarrow> tREAL \<Rightarrow> tREAL \<Rightarrow> tREAL list \<Rightarrow>
   nat \<times> nat \<times> tREAL \<times> tREAL \<times> tREAL \<times> tREAL list" where
  "fesz_merge e f eindex findex enow fnow Q h =
     (if eindex < length e \<and> findex < length f then
        (if e_first enow fnow then
           (let (Qnew, hh) = Two_Sum Q enow in
            fesz_merge e f (eindex + 1) findex (rd e (eindex + 1)) fnow Qnew (put_nonzero h hh))
         else
           (let (Qnew, hh) = Two_Sum Q fnow in
            fesz_merge e f eindex (findex + 1) enow (rd f (findex + 1)) Qnew (put_nonzero h hh)))
      else (eindex, findex, enow, fnow, Q, h))"
  by pat_completeness auto
termination
  by (relation "measure (\<lambda>(e, f, eindex, findex, enow, fnow, Q, h).
        (length e - eindex) + (length f - findex))") auto

declare fesz_merge.simps [simp del]

text \<open>\<open>while (eindex < elen)\<close>, and \<open>while (findex < flen)\<close> with \<open>f\<close> for \<open>e\<close>.\<close>

function fesz_rest ::
  "tREAL list \<Rightarrow> nat \<Rightarrow> tREAL \<Rightarrow> tREAL \<Rightarrow> tREAL list \<Rightarrow> tREAL \<times> tREAL list" where
  "fesz_rest e eindex enow Q h =
     (if eindex < length e then
        (let (Qnew, hh) = Two_Sum Q enow in
         fesz_rest e (eindex + 1) (rd e (eindex + 1)) Qnew (put_nonzero h hh))
      else (Q, h))"
  by pat_completeness auto
termination
  by (relation "measure (\<lambda>(e, eindex, enow, Q, h). length e - eindex)") auto

declare fesz_rest.simps [simp del]

definition fast_expansion_sum_zeroelim :: "tREAL list \<Rightarrow> tREAL list \<Rightarrow> tREAL list" where
  "fast_expansion_sum_zeroelim e f =
     (let enow = rd e 0;
          fnow = rd f 0;
          (Q, eindex, enow, findex, fnow) =
            (if e_first enow fnow then (enow, 1::nat, rd e 1, 0::nat, fnow)
             else (fnow, 0, enow, 1, rd f 1));
          (eindex, findex, enow, fnow, Q, h) =
            (if eindex < length e \<and> findex < length f then
               (let (Qnew, hh, eindex, enow, findex, fnow) =
                      (if e_first enow fnow then
                         (let (Qnew, hh) = Fast_Two_Sum enow Q in
                          (Qnew, hh, eindex + 1, rd e (eindex + 1), findex, fnow))
                       else
                         (let (Qnew, hh) = Fast_Two_Sum fnow Q in
                          (Qnew, hh, eindex, enow, findex + 1, rd f (findex + 1))))
                in fesz_merge e f eindex findex enow fnow Qnew (put_nonzero [] hh))
             else (eindex, findex, enow, fnow, Q, []));
          (Q, h) = fesz_rest e eindex enow Q h;
          (Q, h) = fesz_rest f findex fnow Q h
      in put_last h Q)"

subsection \<open>linear_expansion_sum_zeroelim\<close>




subsection \<open>scale_expansion\<close>

fun scale_loop ::
  "tREAL \<Rightarrow> tREAL \<Rightarrow> tREAL \<Rightarrow> tREAL \<Rightarrow> tREAL list \<Rightarrow> tREAL \<Rightarrow> tREAL list \<Rightarrow>
   tREAL \<times> tREAL list" where
  "scale_loop spl b bhi blo [] Q h = (Q, h)"
| "scale_loop spl b bhi blo (enow # es) Q h =
     (let (product1, product0) = Two_Product_Presplit spl enow b bhi blo;
          (sum, h0) = Two_Sum Q product0;
          (Q', h1) = Two_Sum product1 sum
      in scale_loop spl b bhi blo es Q' (h @ [h0, h1]))"

definition scale_expansion :: "tREAL \<Rightarrow> tREAL list \<Rightarrow> tREAL \<Rightarrow> tREAL list" where
  "scale_expansion spl e b =
     (let (bhi, blo) = tSPLIT spl b;
          (Q, h0) = Two_Product_Presplit spl (rd e 0) b bhi blo;
          (Q, h) = scale_loop spl b bhi blo (tl e) Q [h0]
      in h @ [Q])"

fun scale_zeroelim_loop ::
  "tREAL \<Rightarrow> tREAL \<Rightarrow> tREAL \<Rightarrow> tREAL \<Rightarrow> tREAL list \<Rightarrow> tREAL \<Rightarrow> tREAL list \<Rightarrow>
   tREAL \<times> tREAL list" where
  "scale_zeroelim_loop spl b bhi blo [] Q h = (Q, h)"
| "scale_zeroelim_loop spl b bhi blo (enow # es) Q h =
     (let (product1, product0) = Two_Product_Presplit spl enow b bhi blo;
          (sum, hh) = Two_Sum Q product0;
          h = put_nonzero h hh;
          (Q', hh) = Fast_Two_Sum product1 sum;
          h = put_nonzero h hh
      in scale_zeroelim_loop spl b bhi blo es Q' h)"

definition scale_expansion_zeroelim :: "tREAL \<Rightarrow> tREAL list \<Rightarrow> tREAL \<Rightarrow> tREAL list" where
  "scale_expansion_zeroelim spl e b =
     (let (bhi, blo) = tSPLIT spl b;
          (Q, hh) = Two_Product_Presplit spl (rd e 0) b bhi blo;
          h = put_nonzero [] hh;
          (Q, h) = scale_zeroelim_loop spl b bhi blo (tl e) Q h
      in put_last h Q)"

subsection \<open>estimate\<close>

fun estimate_loop :: "tREAL list \<Rightarrow> tREAL \<Rightarrow> tREAL" where
  "estimate_loop [] Q = Q"
| "estimate_loop (x # xs) Q = estimate_loop xs (fadd Q x)"

definition estimate :: "tREAL list \<Rightarrow> tREAL" where
  "estimate e = estimate_loop (tl e) (rd e 0)"

text \<open>The exact value of an expansion: the sum of its components as real numbers, when
  every component is a finite number.\<close>

definition exact_sum :: "tREAL list \<Rightarrow> real option" where
  "exact_sum e = (if list_all is_finite e then Some (sum_list (map valof e)) else None)"



section \<open>The orientation test\<close>

text \<open>A point \<open>tREAL *pa\<close> is the pair \<open>(pa[0], pa[1])\<close>. \<open>D[Dlength - 1]\<close> is
  \<open>rd D (length D - 1)\<close>. In the two entry points, the branches that \<open>return det\<close>
  before \<open>detsum\<close> is assigned yield \<open>None\<close> for it.\<close>

type_synonym point = "tREAL \<times> tREAL"

subsection \<open>DifferenceOfProductsOfDifferences and AdaptDiffOfProdsOfDiffs\<close>

definition AdaptDiffOfProdsOfDiffs ::
  "predicates \<Rightarrow> tREAL \<Rightarrow> tREAL \<Rightarrow> tREAL \<Rightarrow> tREAL \<Rightarrow> tREAL \<Rightarrow> tREAL \<Rightarrow> tREAL \<Rightarrow> tREAL \<Rightarrow>
   tREAL \<Rightarrow> tREAL" where
  "AdaptDiffOfProdsOfDiffs P terma termb termc termd terme termf termg termh asum =
     (let diff1 = fsub terma termb;
          diff2 = fsub termc termd;
          diff3 = fsub terme termf;
          diff4 = fsub termg termh;
          (leftprod, leftprodtail) = Two_Product (splitter P) diff1 diff2;
          (rightprod, rightprodtail) = Two_Product (splitter P) diff3 diff4;
          (B3, B2, B1, B0) = Two_Two_Diff leftprod leftprodtail rightprod rightprodtail;
          B = [B0, B1, B2, B3];
          diff = estimate B;
          errbound = fmul (ccwerrboundB P) asum
      in if fge diff errbound \<or> fge (fneg diff) errbound then diff
         else
           let diff1tail = Two_Diff_Tail terma termb diff1;
               diff2tail = Two_Diff_Tail termc termd diff2;
               diff3tail = Two_Diff_Tail terme termf diff3;
               diff4tail = Two_Diff_Tail termg termh diff4
           in if feq diff1tail zero \<and> feq diff2tail zero \<and>
                 feq diff3tail zero \<and> feq diff4tail zero then diff
              else
                let errbound = fadd (fmul (ccwerrboundC P) asum)
                                    (fmul (resulterrbound P) (Absolute diff));
                    diff = fadd diff
                             (fsub (fadd (fmul diff1 diff2tail) (fmul diff2 diff1tail))
                                   (fadd (fmul diff3 diff4tail) (fmul diff4 diff3tail)))
                in if fge diff errbound \<or> fge (fneg diff) errbound then diff
                   else
                     let (s1, s0) = Two_Product (splitter P) diff1tail diff2;
                         (t1, t0) = Two_Product (splitter P) diff3tail diff4;
                         (u3, u2, u1, u0) = Two_Two_Diff s1 s0 t1 t0;
                         u = [u0, u1, u2, u3];
                         C1 = fast_expansion_sum_zeroelim B u;
                         (s1, s0) = Two_Product (splitter P) diff1 diff2tail;
                         (t1, t0) = Two_Product (splitter P) diff3 diff4tail;
                         (u3, u2, u1, u0) = Two_Two_Diff s1 s0 t1 t0;
                         u = [u0, u1, u2, u3];
                         C2 = fast_expansion_sum_zeroelim C1 u;
                         (s1, s0) = Two_Product (splitter P) diff1tail diff2tail;
                         (t1, t0) = Two_Product (splitter P) diff3tail diff4tail;
                         (u3, u2, u1, u0) = Two_Two_Diff s1 s0 t1 t0;
                         u = [u0, u1, u2, u3];
                         D = fast_expansion_sum_zeroelim C2 u
                     in rd D (length D - 1))"

definition DifferenceOfProductsOfDifferences ::
  "predicates \<Rightarrow> tREAL \<Rightarrow> tREAL \<Rightarrow> tREAL \<Rightarrow> tREAL \<Rightarrow> tREAL \<Rightarrow> tREAL \<Rightarrow> tREAL \<Rightarrow> tREAL \<Rightarrow>
   tREAL" where
  "DifferenceOfProductsOfDifferences P a b c d e f g h =
     (let left = fmul (fsub a b) (fsub c d);
          right = fmul (fsub e f) (fsub g h);
          diff = fsub left right
      in case (if fgt left zero then
                 (if fle right zero then None else Some (fadd left right))
               else if flt left zero then
                 (if fge right zero then None else Some (fsub (fneg left) right))
               else None) of
           None \<Rightarrow> diff
         | Some asum \<Rightarrow>
             let errbound = fmul (ccwerrboundA P) asum
             in if fge diff errbound \<or> fge (fneg diff) errbound then diff
                else AdaptDiffOfProdsOfDiffs P a b c d e f g h asum)"

subsection \<open>orient2d and orient2dadapt\<close>

definition orient2dadapt :: "predicates \<Rightarrow> point \<Rightarrow> point \<Rightarrow> point \<Rightarrow> tREAL \<Rightarrow> tREAL" where
  "orient2dadapt P pa pb pc detsum =
     (let acx = fsub (fst pa) (fst pc);
          bcx = fsub (fst pb) (fst pc);
          acy = fsub (snd pa) (snd pc);
          bcy = fsub (snd pb) (snd pc);
          (detleft, detlefttail) = Two_Product (splitter P) acx bcy;
          (detright, detrighttail) = Two_Product (splitter P) acy bcx;
          (B3, B2, B1, B0) = Two_Two_Diff detleft detlefttail detright detrighttail;
          B = [B0, B1, B2, B3];
          det = estimate B;
          errbound = fmul (ccwerrboundB P) detsum
      in if fge det errbound \<or> fge (fneg det) errbound then det
         else
           let acxtail = Two_Diff_Tail (fst pa) (fst pc) acx;
               bcxtail = Two_Diff_Tail (fst pb) (fst pc) bcx;
               acytail = Two_Diff_Tail (snd pa) (snd pc) acy;
               bcytail = Two_Diff_Tail (snd pb) (snd pc) bcy
           in if feq acxtail zero \<and> feq acytail zero \<and>
                 feq bcxtail zero \<and> feq bcytail zero then det
              else
                let errbound = fadd (fmul (ccwerrboundC P) detsum)
                                    (fmul (resulterrbound P) (Absolute det));
                    det = fadd det
                            (fsub (fadd (fmul acx bcytail) (fmul bcy acxtail))
                                  (fadd (fmul acy bcxtail) (fmul bcx acytail)))
                in if fge det errbound \<or> fge (fneg det) errbound then det
                   else
                     let (s1, s0) = Two_Product (splitter P) acxtail bcy;
                         (t1, t0) = Two_Product (splitter P) acytail bcx;
                         (u3, u2, u1, u0) = Two_Two_Diff s1 s0 t1 t0;
                         u = [u0, u1, u2, u3];
                         C1 = fast_expansion_sum_zeroelim B u;
                         (s1, s0) = Two_Product (splitter P) acx bcytail;
                         (t1, t0) = Two_Product (splitter P) acy bcxtail;
                         (u3, u2, u1, u0) = Two_Two_Diff s1 s0 t1 t0;
                         u = [u0, u1, u2, u3];
                         C2 = fast_expansion_sum_zeroelim C1 u;
                         (s1, s0) = Two_Product (splitter P) acxtail bcytail;
                         (t1, t0) = Two_Product (splitter P) acytail bcxtail;
                         (u3, u2, u1, u0) = Two_Two_Diff s1 s0 t1 t0;
                         u = [u0, u1, u2, u3];
                         D = fast_expansion_sum_zeroelim C2 u
                     in rd D (length D - 1))"

definition orient2d :: "predicates \<Rightarrow> point \<Rightarrow> point \<Rightarrow> point \<Rightarrow> tREAL" where
  "orient2d P pa pb pc =
     (let detleft = fmul (fsub (fst pa) (fst pc)) (fsub (snd pb) (snd pc));
          detright = fmul (fsub (snd pa) (snd pc)) (fsub (fst pb) (fst pc));
          det = fsub detleft detright
      in case (if fgt detleft zero then
                 (if fle detright zero then None else Some (fadd detleft detright))
               else if flt detleft zero then
                 (if fge detright zero then None else Some (fsub (fneg detleft) detright))
               else None) of
           None \<Rightarrow> det
         | Some detsum \<Rightarrow>
             let errbound = fmul (ccwerrboundA P) detsum
             in if fge det errbound \<or> fge (fneg det) errbound then det
                else orient2dadapt P pa pb pc detsum)"

text \<open>The exact determinant the orientation test decides, over the reals.\<close>

definition orient_exact :: "point \<Rightarrow> point \<Rightarrow> point \<Rightarrow> real" where
  "orient_exact pa pb pc =
     (valof (fst pa) - valof (fst pc)) * (valof (snd pb) - valof (snd pc))
       - (valof (snd pa) - valof (snd pc)) * (valof (fst pb) - valof (fst pc))"

section \<open>The in-circle test\<close>

text \<open>
  The local arrays of \<open>incircleadapt\<close> that one block fills and a later block reads, and
  \<open>fin\<close> for the array \<open>finnow\<close> points to (\<open>finlength\<close> is its length; the swap of
  \<open>finnow\<close> and \<open>finother\<close> after each sum makes the sum the new \<open>fin\<close>). An array is
  empty until its block has run.
\<close>

record icc_locals =
  aa :: "tREAL list"
  bb :: "tREAL list"
  cc :: "tREAL list"
  axtbc :: "tREAL list"
  aytbc :: "tREAL list"
  bxtca :: "tREAL list"
  bytca :: "tREAL list"
  cxtab :: "tREAL list"
  cytab :: "tREAL list"
  bct :: "tREAL list"
  bctt :: "tREAL list"
  cat :: "tREAL list"
  catt :: "tREAL list"
  abt :: "tREAL list"
  abtt :: "tREAL list"
  fin :: "tREAL list"

definition incircleadapt ::
  "predicates \<Rightarrow> point \<Rightarrow> point \<Rightarrow> point \<Rightarrow> point \<Rightarrow> tREAL \<Rightarrow> tREAL" where
  "incircleadapt P pa pb pc pd permanent =
     (let adx = fsub (fst pa) (fst pd);
          bdx = fsub (fst pb) (fst pd);
          cdx = fsub (fst pc) (fst pd);
          ady = fsub (snd pa) (snd pd);
          bdy = fsub (snd pb) (snd pd);
          cdy = fsub (snd pc) (snd pd);
          (bdxcdy1, bdxcdy0) = Two_Product (splitter P) bdx cdy;
          (cdxbdy1, cdxbdy0) = Two_Product (splitter P) cdx bdy;
          (bc3, bc2, bc1, bc0) = Two_Two_Diff bdxcdy1 bdxcdy0 cdxbdy1 cdxbdy0;
          bc = [bc0, bc1, bc2, bc3];
          axbc = scale_expansion_zeroelim (splitter P) bc adx;
          axxbc = scale_expansion_zeroelim (splitter P) axbc adx;
          aybc = scale_expansion_zeroelim (splitter P) bc ady;
          ayybc = scale_expansion_zeroelim (splitter P) aybc ady;
          adet = fast_expansion_sum_zeroelim axxbc ayybc;
          (cdxady1, cdxady0) = Two_Product (splitter P) cdx ady;
          (adxcdy1, adxcdy0) = Two_Product (splitter P) adx cdy;
          (ca3, ca2, ca1, ca0) = Two_Two_Diff cdxady1 cdxady0 adxcdy1 adxcdy0;
          ca = [ca0, ca1, ca2, ca3];
          bxca = scale_expansion_zeroelim (splitter P) ca bdx;
          bxxca = scale_expansion_zeroelim (splitter P) bxca bdx;
          byca = scale_expansion_zeroelim (splitter P) ca bdy;
          byyca = scale_expansion_zeroelim (splitter P) byca bdy;
          bdet = fast_expansion_sum_zeroelim bxxca byyca;
          (adxbdy1, adxbdy0) = Two_Product (splitter P) adx bdy;
          (bdxady1, bdxady0) = Two_Product (splitter P) bdx ady;
          (ab3, ab2, ab1, ab0) = Two_Two_Diff adxbdy1 adxbdy0 bdxady1 bdxady0;
          ab = [ab0, ab1, ab2, ab3];
          cxab = scale_expansion_zeroelim (splitter P) ab cdx;
          cxxab = scale_expansion_zeroelim (splitter P) cxab cdx;
          cyab = scale_expansion_zeroelim (splitter P) ab cdy;
          cyyab = scale_expansion_zeroelim (splitter P) cyab cdy;
          cdet = fast_expansion_sum_zeroelim cxxab cyyab;
          abdet = fast_expansion_sum_zeroelim adet bdet;
          fin1 = fast_expansion_sum_zeroelim abdet cdet;
          det = estimate fin1;
          errbound = fmul (iccerrboundB P) permanent
      in if fge det errbound \<or> fge (fneg det) errbound then det
         else
           let adxtail = Two_Diff_Tail (fst pa) (fst pd) adx;
               adytail = Two_Diff_Tail (snd pa) (snd pd) ady;
               bdxtail = Two_Diff_Tail (fst pb) (fst pd) bdx;
               bdytail = Two_Diff_Tail (snd pb) (snd pd) bdy;
               cdxtail = Two_Diff_Tail (fst pc) (fst pd) cdx;
               cdytail = Two_Diff_Tail (snd pc) (snd pd) cdy
           in if feq adxtail zero \<and> feq bdxtail zero \<and> feq cdxtail zero \<and>
                 feq adytail zero \<and> feq bdytail zero \<and> feq cdytail zero then det
              else
                let errbound = fadd (fmul (iccerrboundC P) permanent)
                                    (fmul (resulterrbound P) (Absolute det));
                    det = fadd det
                      (fadd
                        (fadd
                          (fadd
                            (fmul (fadd (fmul adx adx) (fmul ady ady))
                               (fsub (fadd (fmul bdx cdytail) (fmul cdy bdxtail))
                                     (fadd (fmul bdy cdxtail) (fmul cdx bdytail))))
                            (fmul (fmul (dbl 2) (fadd (fmul adx adxtail) (fmul ady adytail)))
                               (fsub (fmul bdx cdy) (fmul bdy cdx))))
                          (fadd
                            (fmul (fadd (fmul bdx bdx) (fmul bdy bdy))
                               (fsub (fadd (fmul cdx adytail) (fmul ady cdxtail))
                                     (fadd (fmul cdy adxtail) (fmul adx cdytail))))
                            (fmul (fmul (dbl 2) (fadd (fmul bdx bdxtail) (fmul bdy bdytail)))
                               (fsub (fmul cdx ady) (fmul cdy adx)))))
                        (fadd
                          (fmul (fadd (fmul cdx cdx) (fmul cdy cdy))
                             (fsub (fadd (fmul adx bdytail) (fmul bdy adxtail))
                                   (fadd (fmul ady bdxtail) (fmul bdx adytail))))
                          (fmul (fmul (dbl 2) (fadd (fmul cdx cdxtail) (fmul cdy cdytail)))
                             (fsub (fmul adx bdy) (fmul ady bdx)))))
                in if fge det errbound \<or> fge (fneg det) errbound then det
                   else
                     let s = \<lparr> aa = [], bb = [], cc = [], axtbc = [], aytbc = [],
                               bxtca = [], bytca = [], cxtab = [], cytab = [],
                               bct = [], bctt = [], cat = [], catt = [],
                               abt = [], abtt = [], fin = fin1 \<rparr>
                     in
                     let s = (if fne bdxtail zero \<or> fne bdytail zero \<or> fne cdxtail zero
                             \<or> fne cdytail zero then
                                (let (adxadx1, adxadx0) = Square (splitter P) adx;
                                     (adyady1, adyady0) = Square (splitter P) ady;
                                     (aa3, aa2, aa1, aa0) = Two_Two_Sum adxadx1 adxadx0 adyady1 adyady0;
                                     s = s\<lparr>aa := [aa0, aa1, aa2, aa3]\<rparr>
                                 in s)
                              else s);
                         s = (if fne cdxtail zero \<or> fne cdytail zero \<or> fne adxtail zero
                             \<or> fne adytail zero then
                                (let (bdxbdx1, bdxbdx0) = Square (splitter P) bdx;
                                     (bdybdy1, bdybdy0) = Square (splitter P) bdy;
                                     (bb3, bb2, bb1, bb0) = Two_Two_Sum bdxbdx1 bdxbdx0 bdybdy1 bdybdy0;
                                     s = s\<lparr>bb := [bb0, bb1, bb2, bb3]\<rparr>
                                 in s)
                              else s);
                         s = (if fne adxtail zero \<or> fne adytail zero \<or> fne bdxtail zero
                             \<or> fne bdytail zero then
                                (let (cdxcdx1, cdxcdx0) = Square (splitter P) cdx;
                                     (cdycdy1, cdycdy0) = Square (splitter P) cdy;
                                     (cc3, cc2, cc1, cc0) = Two_Two_Sum cdxcdx1 cdxcdx0 cdycdy1 cdycdy0;
                                     s = s\<lparr>cc := [cc0, cc1, cc2, cc3]\<rparr>
                                 in s)
                              else s);
                         s = (if fne adxtail zero then
                                (let s = s\<lparr>axtbc := scale_expansion_zeroelim (splitter P) bc adxtail\<rparr>;
                                     temp16a = scale_expansion_zeroelim (splitter P) (axtbc s) (fmul (dbl 2) adx);
                                     axtcc = scale_expansion_zeroelim (splitter P) (cc s) adxtail;
                                     temp16b = scale_expansion_zeroelim (splitter P) axtcc bdy;
                                     axtbb = scale_expansion_zeroelim (splitter P) (bb s) adxtail;
                                     temp16c = scale_expansion_zeroelim (splitter P) axtbb (fneg cdy);
                                     temp32a = fast_expansion_sum_zeroelim temp16a temp16b;
                                     temp48 = fast_expansion_sum_zeroelim temp16c temp32a;
                                     finother = fast_expansion_sum_zeroelim (fin s) temp48;
                                     s = s\<lparr>fin := finother\<rparr>
                                 in s)
                              else s);
                         s = (if fne adytail zero then
                                (let s = s\<lparr>aytbc := scale_expansion_zeroelim (splitter P) bc adytail\<rparr>;
                                     temp16a = scale_expansion_zeroelim (splitter P) (aytbc s) (fmul (dbl 2) ady);
                                     aytbb = scale_expansion_zeroelim (splitter P) (bb s) adytail;
                                     temp16b = scale_expansion_zeroelim (splitter P) aytbb cdx;
                                     aytcc = scale_expansion_zeroelim (splitter P) (cc s) adytail;
                                     temp16c = scale_expansion_zeroelim (splitter P) aytcc (fneg bdx);
                                     temp32a = fast_expansion_sum_zeroelim temp16a temp16b;
                                     temp48 = fast_expansion_sum_zeroelim temp16c temp32a;
                                     finother = fast_expansion_sum_zeroelim (fin s) temp48;
                                     s = s\<lparr>fin := finother\<rparr>
                                 in s)
                              else s);
                         s = (if fne bdxtail zero then
                                (let s = s\<lparr>bxtca := scale_expansion_zeroelim (splitter P) ca bdxtail\<rparr>;
                                     temp16a = scale_expansion_zeroelim (splitter P) (bxtca s) (fmul (dbl 2) bdx);
                                     bxtaa = scale_expansion_zeroelim (splitter P) (aa s) bdxtail;
                                     temp16b = scale_expansion_zeroelim (splitter P) bxtaa cdy;
                                     bxtcc = scale_expansion_zeroelim (splitter P) (cc s) bdxtail;
                                     temp16c = scale_expansion_zeroelim (splitter P) bxtcc (fneg ady);
                                     temp32a = fast_expansion_sum_zeroelim temp16a temp16b;
                                     temp48 = fast_expansion_sum_zeroelim temp16c temp32a;
                                     finother = fast_expansion_sum_zeroelim (fin s) temp48;
                                     s = s\<lparr>fin := finother\<rparr>
                                 in s)
                              else s);
                         s = (if fne bdytail zero then
                                (let s = s\<lparr>bytca := scale_expansion_zeroelim (splitter P) ca bdytail\<rparr>;
                                     temp16a = scale_expansion_zeroelim (splitter P) (bytca s) (fmul (dbl 2) bdy);
                                     bytcc = scale_expansion_zeroelim (splitter P) (cc s) bdytail;
                                     temp16b = scale_expansion_zeroelim (splitter P) bytcc adx;
                                     bytaa = scale_expansion_zeroelim (splitter P) (aa s) bdytail;
                                     temp16c = scale_expansion_zeroelim (splitter P) bytaa (fneg cdx);
                                     temp32a = fast_expansion_sum_zeroelim temp16a temp16b;
                                     temp48 = fast_expansion_sum_zeroelim temp16c temp32a;
                                     finother = fast_expansion_sum_zeroelim (fin s) temp48;
                                     s = s\<lparr>fin := finother\<rparr>
                                 in s)
                              else s);
                         s = (if fne cdxtail zero then
                                (let s = s\<lparr>cxtab := scale_expansion_zeroelim (splitter P) ab cdxtail\<rparr>;
                                     temp16a = scale_expansion_zeroelim (splitter P) (cxtab s) (fmul (dbl 2) cdx);
                                     cxtbb = scale_expansion_zeroelim (splitter P) (bb s) cdxtail;
                                     temp16b = scale_expansion_zeroelim (splitter P) cxtbb ady;
                                     cxtaa = scale_expansion_zeroelim (splitter P) (aa s) cdxtail;
                                     temp16c = scale_expansion_zeroelim (splitter P) cxtaa (fneg bdy);
                                     temp32a = fast_expansion_sum_zeroelim temp16a temp16b;
                                     temp48 = fast_expansion_sum_zeroelim temp16c temp32a;
                                     finother = fast_expansion_sum_zeroelim (fin s) temp48;
                                     s = s\<lparr>fin := finother\<rparr>
                                 in s)
                              else s);
                         s = (if fne cdytail zero then
                                (let s = s\<lparr>cytab := scale_expansion_zeroelim (splitter P) ab cdytail\<rparr>;
                                     temp16a = scale_expansion_zeroelim (splitter P) (cytab s) (fmul (dbl 2) cdy);
                                     cytaa = scale_expansion_zeroelim (splitter P) (aa s) cdytail;
                                     temp16b = scale_expansion_zeroelim (splitter P) cytaa bdx;
                                     cytbb = scale_expansion_zeroelim (splitter P) (bb s) cdytail;
                                     temp16c = scale_expansion_zeroelim (splitter P) cytbb (fneg adx);
                                     temp32a = fast_expansion_sum_zeroelim temp16a temp16b;
                                     temp48 = fast_expansion_sum_zeroelim temp16c temp32a;
                                     finother = fast_expansion_sum_zeroelim (fin s) temp48;
                                     s = s\<lparr>fin := finother\<rparr>
                                 in s)
                              else s);
                         s = (if fne adxtail zero \<or> fne adytail zero then
                                (let s = (if fne bdxtail zero \<or> fne bdytail zero
                                         \<or> fne cdxtail zero \<or> fne cdytail zero then
                                            (let (ti1, ti0) = Two_Product (splitter P) bdxtail cdy;
                                                 (tj1, tj0) = Two_Product (splitter P) bdx cdytail;
                                                 (u3, u2, u1, u0) = Two_Two_Sum ti1 ti0 tj1 tj0;
                                                 u = [u0, u1, u2, u3];
                                                 negate = fneg bdy;
                                                 (ti1, ti0) = Two_Product (splitter P) cdxtail negate;
                                                 negate = fneg bdytail;
                                                 (tj1, tj0) = Two_Product (splitter P) cdx negate;
                                                 (v3, v2, v1, v0) = Two_Two_Sum ti1 ti0 tj1 tj0;
                                                 v = [v0, v1, v2, v3];
                                                 s = s\<lparr>bct := fast_expansion_sum_zeroelim u v\<rparr>;
                                                 (ti1, ti0) = Two_Product (splitter P) bdxtail cdytail;
                                                 (tj1, tj0) = Two_Product (splitter P) cdxtail bdytail;
                                                 (bctt3, bctt2, bctt1, bctt0) = Two_Two_Diff ti1 ti0 tj1 tj0;
                                                 s = s\<lparr>bctt := [bctt0, bctt1, bctt2, bctt3]\<rparr>
                                             in s)
                                          else
                                            (let s = s\<lparr>bct := [zero]\<rparr>;
                                                 s = s\<lparr>bctt := [zero]\<rparr>
                                             in s));
                                     s = (if fne adxtail zero then
                                            (let temp16a = scale_expansion_zeroelim (splitter P) (axtbc s) adxtail;
                                                 axtbct = scale_expansion_zeroelim (splitter P) (bct s) adxtail;
                                                 temp32a = scale_expansion_zeroelim (splitter P) axtbct
                                                   (fmul (dbl 2) adx);
                                                 temp48 = fast_expansion_sum_zeroelim temp16a temp32a;
                                                 finother = fast_expansion_sum_zeroelim (fin s) temp48;
                                                 s = s\<lparr>fin := finother\<rparr>;
                                                 s = (if fne bdytail zero then
                                                        (let temp8 = scale_expansion_zeroelim (splitter P) (cc s)
                                                               adxtail;
                                                             temp16a = scale_expansion_zeroelim (splitter P) temp8
                                                               bdytail;
                                                             finother = fast_expansion_sum_zeroelim (fin s) temp16a;
                                                             s = s\<lparr>fin := finother\<rparr>
                                                         in s)
                                                      else s);
                                                 s = (if fne cdytail zero then
                                                        (let temp8 = scale_expansion_zeroelim (splitter P) (bb s)
                                                               (fneg adxtail);
                                                             temp16a = scale_expansion_zeroelim (splitter P) temp8
                                                               cdytail;
                                                             finother = fast_expansion_sum_zeroelim (fin s) temp16a;
                                                             s = s\<lparr>fin := finother\<rparr>
                                                         in s)
                                                      else s);
                                                 temp32a = scale_expansion_zeroelim (splitter P) axtbct adxtail;
                                                 axtbctt = scale_expansion_zeroelim (splitter P) (bctt s) adxtail;
                                                 temp16a = scale_expansion_zeroelim (splitter P) axtbctt
                                                   (fmul (dbl 2) adx);
                                                 temp16b = scale_expansion_zeroelim (splitter P) axtbctt adxtail;
                                                 temp32b = fast_expansion_sum_zeroelim temp16a temp16b;
                                                 temp64 = fast_expansion_sum_zeroelim temp32a temp32b;
                                                 finother = fast_expansion_sum_zeroelim (fin s) temp64;
                                                 s = s\<lparr>fin := finother\<rparr>
                                             in s)
                                          else s);
                                     s = (if fne adytail zero then
                                            (let temp16a = scale_expansion_zeroelim (splitter P) (aytbc s) adytail;
                                                 aytbct = scale_expansion_zeroelim (splitter P) (bct s) adytail;
                                                 temp32a = scale_expansion_zeroelim (splitter P) aytbct
                                                   (fmul (dbl 2) ady);
                                                 temp48 = fast_expansion_sum_zeroelim temp16a temp32a;
                                                 finother = fast_expansion_sum_zeroelim (fin s) temp48;
                                                 s = s\<lparr>fin := finother\<rparr>;
                                                 temp32a = scale_expansion_zeroelim (splitter P) aytbct adytail;
                                                 aytbctt = scale_expansion_zeroelim (splitter P) (bctt s) adytail;
                                                 temp16a = scale_expansion_zeroelim (splitter P) aytbctt
                                                   (fmul (dbl 2) ady);
                                                 temp16b = scale_expansion_zeroelim (splitter P) aytbctt adytail;
                                                 temp32b = fast_expansion_sum_zeroelim temp16a temp16b;
                                                 temp64 = fast_expansion_sum_zeroelim temp32a temp32b;
                                                 finother = fast_expansion_sum_zeroelim (fin s) temp64;
                                                 s = s\<lparr>fin := finother\<rparr>
                                             in s)
                                          else s)
                                 in s)
                              else s);
                         s = (if fne bdxtail zero \<or> fne bdytail zero then
                                (let s = (if fne cdxtail zero \<or> fne cdytail zero
                                         \<or> fne adxtail zero \<or> fne adytail zero then
                                            (let (ti1, ti0) = Two_Product (splitter P) cdxtail ady;
                                                 (tj1, tj0) = Two_Product (splitter P) cdx adytail;
                                                 (u3, u2, u1, u0) = Two_Two_Sum ti1 ti0 tj1 tj0;
                                                 u = [u0, u1, u2, u3];
                                                 negate = fneg cdy;
                                                 (ti1, ti0) = Two_Product (splitter P) adxtail negate;
                                                 negate = fneg cdytail;
                                                 (tj1, tj0) = Two_Product (splitter P) adx negate;
                                                 (v3, v2, v1, v0) = Two_Two_Sum ti1 ti0 tj1 tj0;
                                                 v = [v0, v1, v2, v3];
                                                 s = s\<lparr>cat := fast_expansion_sum_zeroelim u v\<rparr>;
                                                 (ti1, ti0) = Two_Product (splitter P) cdxtail adytail;
                                                 (tj1, tj0) = Two_Product (splitter P) adxtail cdytail;
                                                 (catt3, catt2, catt1, catt0) = Two_Two_Diff ti1 ti0 tj1 tj0;
                                                 s = s\<lparr>catt := [catt0, catt1, catt2, catt3]\<rparr>
                                             in s)
                                          else
                                            (let s = s\<lparr>cat := [zero]\<rparr>;
                                                 s = s\<lparr>catt := [zero]\<rparr>
                                             in s));
                                     s = (if fne bdxtail zero then
                                            (let temp16a = scale_expansion_zeroelim (splitter P) (bxtca s) bdxtail;
                                                 bxtcat = scale_expansion_zeroelim (splitter P) (cat s) bdxtail;
                                                 temp32a = scale_expansion_zeroelim (splitter P) bxtcat
                                                   (fmul (dbl 2) bdx);
                                                 temp48 = fast_expansion_sum_zeroelim temp16a temp32a;
                                                 finother = fast_expansion_sum_zeroelim (fin s) temp48;
                                                 s = s\<lparr>fin := finother\<rparr>;
                                                 s = (if fne cdytail zero then
                                                        (let temp8 = scale_expansion_zeroelim (splitter P) (aa s)
                                                               bdxtail;
                                                             temp16a = scale_expansion_zeroelim (splitter P) temp8
                                                               cdytail;
                                                             finother = fast_expansion_sum_zeroelim (fin s) temp16a;
                                                             s = s\<lparr>fin := finother\<rparr>
                                                         in s)
                                                      else s);
                                                 s = (if fne adytail zero then
                                                        (let temp8 = scale_expansion_zeroelim (splitter P) (cc s)
                                                               (fneg bdxtail);
                                                             temp16a = scale_expansion_zeroelim (splitter P) temp8
                                                               adytail;
                                                             finother = fast_expansion_sum_zeroelim (fin s) temp16a;
                                                             s = s\<lparr>fin := finother\<rparr>
                                                         in s)
                                                      else s);
                                                 temp32a = scale_expansion_zeroelim (splitter P) bxtcat bdxtail;
                                                 bxtcatt = scale_expansion_zeroelim (splitter P) (catt s) bdxtail;
                                                 temp16a = scale_expansion_zeroelim (splitter P) bxtcatt
                                                   (fmul (dbl 2) bdx);
                                                 temp16b = scale_expansion_zeroelim (splitter P) bxtcatt bdxtail;
                                                 temp32b = fast_expansion_sum_zeroelim temp16a temp16b;
                                                 temp64 = fast_expansion_sum_zeroelim temp32a temp32b;
                                                 finother = fast_expansion_sum_zeroelim (fin s) temp64;
                                                 s = s\<lparr>fin := finother\<rparr>
                                             in s)
                                          else s);
                                     s = (if fne bdytail zero then
                                            (let temp16a = scale_expansion_zeroelim (splitter P) (bytca s) bdytail;
                                                 bytcat = scale_expansion_zeroelim (splitter P) (cat s) bdytail;
                                                 temp32a = scale_expansion_zeroelim (splitter P) bytcat
                                                   (fmul (dbl 2) bdy);
                                                 temp48 = fast_expansion_sum_zeroelim temp16a temp32a;
                                                 finother = fast_expansion_sum_zeroelim (fin s) temp48;
                                                 s = s\<lparr>fin := finother\<rparr>;
                                                 temp32a = scale_expansion_zeroelim (splitter P) bytcat bdytail;
                                                 bytcatt = scale_expansion_zeroelim (splitter P) (catt s) bdytail;
                                                 temp16a = scale_expansion_zeroelim (splitter P) bytcatt
                                                   (fmul (dbl 2) bdy);
                                                 temp16b = scale_expansion_zeroelim (splitter P) bytcatt bdytail;
                                                 temp32b = fast_expansion_sum_zeroelim temp16a temp16b;
                                                 temp64 = fast_expansion_sum_zeroelim temp32a temp32b;
                                                 finother = fast_expansion_sum_zeroelim (fin s) temp64;
                                                 s = s\<lparr>fin := finother\<rparr>
                                             in s)
                                          else s)
                                 in s)
                              else s);
                         s = (if fne cdxtail zero \<or> fne cdytail zero then
                                (let s = (if fne adxtail zero \<or> fne adytail zero
                                         \<or> fne bdxtail zero \<or> fne bdytail zero then
                                            (let (ti1, ti0) = Two_Product (splitter P) adxtail bdy;
                                                 (tj1, tj0) = Two_Product (splitter P) adx bdytail;
                                                 (u3, u2, u1, u0) = Two_Two_Sum ti1 ti0 tj1 tj0;
                                                 u = [u0, u1, u2, u3];
                                                 negate = fneg ady;
                                                 (ti1, ti0) = Two_Product (splitter P) bdxtail negate;
                                                 negate = fneg adytail;
                                                 (tj1, tj0) = Two_Product (splitter P) bdx negate;
                                                 (v3, v2, v1, v0) = Two_Two_Sum ti1 ti0 tj1 tj0;
                                                 v = [v0, v1, v2, v3];
                                                 s = s\<lparr>abt := fast_expansion_sum_zeroelim u v\<rparr>;
                                                 (ti1, ti0) = Two_Product (splitter P) adxtail bdytail;
                                                 (tj1, tj0) = Two_Product (splitter P) bdxtail adytail;
                                                 (abtt3, abtt2, abtt1, abtt0) = Two_Two_Diff ti1 ti0 tj1 tj0;
                                                 s = s\<lparr>abtt := [abtt0, abtt1, abtt2, abtt3]\<rparr>
                                             in s)
                                          else
                                            (let s = s\<lparr>abt := [zero]\<rparr>;
                                                 s = s\<lparr>abtt := [zero]\<rparr>
                                             in s));
                                     s = (if fne cdxtail zero then
                                            (let temp16a = scale_expansion_zeroelim (splitter P) (cxtab s) cdxtail;
                                                 cxtabt = scale_expansion_zeroelim (splitter P) (abt s) cdxtail;
                                                 temp32a = scale_expansion_zeroelim (splitter P) cxtabt
                                                   (fmul (dbl 2) cdx);
                                                 temp48 = fast_expansion_sum_zeroelim temp16a temp32a;
                                                 finother = fast_expansion_sum_zeroelim (fin s) temp48;
                                                 s = s\<lparr>fin := finother\<rparr>;
                                                 s = (if fne adytail zero then
                                                        (let temp8 = scale_expansion_zeroelim (splitter P) (bb s)
                                                               cdxtail;
                                                             temp16a = scale_expansion_zeroelim (splitter P) temp8
                                                               adytail;
                                                             finother = fast_expansion_sum_zeroelim (fin s) temp16a;
                                                             s = s\<lparr>fin := finother\<rparr>
                                                         in s)
                                                      else s);
                                                 s = (if fne bdytail zero then
                                                        (let temp8 = scale_expansion_zeroelim (splitter P) (aa s)
                                                               (fneg cdxtail);
                                                             temp16a = scale_expansion_zeroelim (splitter P) temp8
                                                               bdytail;
                                                             finother = fast_expansion_sum_zeroelim (fin s) temp16a;
                                                             s = s\<lparr>fin := finother\<rparr>
                                                         in s)
                                                      else s);
                                                 temp32a = scale_expansion_zeroelim (splitter P) cxtabt cdxtail;
                                                 cxtabtt = scale_expansion_zeroelim (splitter P) (abtt s) cdxtail;
                                                 temp16a = scale_expansion_zeroelim (splitter P) cxtabtt
                                                   (fmul (dbl 2) cdx);
                                                 temp16b = scale_expansion_zeroelim (splitter P) cxtabtt cdxtail;
                                                 temp32b = fast_expansion_sum_zeroelim temp16a temp16b;
                                                 temp64 = fast_expansion_sum_zeroelim temp32a temp32b;
                                                 finother = fast_expansion_sum_zeroelim (fin s) temp64;
                                                 s = s\<lparr>fin := finother\<rparr>
                                             in s)
                                          else s);
                                     s = (if fne cdytail zero then
                                            (let temp16a = scale_expansion_zeroelim (splitter P) (cytab s) cdytail;
                                                 cytabt = scale_expansion_zeroelim (splitter P) (abt s) cdytail;
                                                 temp32a = scale_expansion_zeroelim (splitter P) cytabt
                                                   (fmul (dbl 2) cdy);
                                                 temp48 = fast_expansion_sum_zeroelim temp16a temp32a;
                                                 finother = fast_expansion_sum_zeroelim (fin s) temp48;
                                                 s = s\<lparr>fin := finother\<rparr>;
                                                 temp32a = scale_expansion_zeroelim (splitter P) cytabt cdytail;
                                                 cytabtt = scale_expansion_zeroelim (splitter P) (abtt s) cdytail;
                                                 temp16a = scale_expansion_zeroelim (splitter P) cytabtt
                                                   (fmul (dbl 2) cdy);
                                                 temp16b = scale_expansion_zeroelim (splitter P) cytabtt cdytail;
                                                 temp32b = fast_expansion_sum_zeroelim temp16a temp16b;
                                                 temp64 = fast_expansion_sum_zeroelim temp32a temp32b;
                                                 finother = fast_expansion_sum_zeroelim (fin s) temp64;
                                                 s = s\<lparr>fin := finother\<rparr>
                                             in s)
                                          else s)
                                 in s)
                              else s)
                     in rd (fin s) (length (fin s) - 1))"

definition incircle :: "predicates \<Rightarrow> point \<Rightarrow> point \<Rightarrow> point \<Rightarrow> point \<Rightarrow> tREAL" where
  "incircle P pa pb pc pd =
     (let adx = fsub (fst pa) (fst pd);
          bdx = fsub (fst pb) (fst pd);
          cdx = fsub (fst pc) (fst pd);
          ady = fsub (snd pa) (snd pd);
          bdy = fsub (snd pb) (snd pd);
          cdy = fsub (snd pc) (snd pd);
          bdxcdy = fmul bdx cdy;
          cdxbdy = fmul cdx bdy;
          alift = fadd (fmul adx adx) (fmul ady ady);
          cdxady = fmul cdx ady;
          adxcdy = fmul adx cdy;
          blift = fadd (fmul bdx bdx) (fmul bdy bdy);
          adxbdy = fmul adx bdy;
          bdxady = fmul bdx ady;
          clift = fadd (fmul cdx cdx) (fmul cdy cdy);
          det = fadd (fadd (fmul alift (fsub bdxcdy cdxbdy))
                           (fmul blift (fsub cdxady adxcdy)))
                     (fmul clift (fsub adxbdy bdxady));
          permanent = fadd (fadd (fmul (fadd (Absolute bdxcdy) (Absolute cdxbdy)) alift)
                                 (fmul (fadd (Absolute cdxady) (Absolute adxcdy)) blift))
                           (fmul (fadd (Absolute adxbdy) (Absolute bdxady)) clift);
          errbound = fmul (iccerrboundA P) permanent
      in if fgt det errbound \<or> fgt (fneg det) errbound then det
         else incircleadapt P pa pb pc pd permanent)"

text \<open>The exact determinant the in-circle test decides, over the reals.\<close>

definition incircle_exact :: "point \<Rightarrow> point \<Rightarrow> point \<Rightarrow> point \<Rightarrow> real" where
  "incircle_exact pa pb pc pd =
     (let adx = valof (fst pa) - valof (fst pd); ady = valof (snd pa) - valof (snd pd);
          bdx = valof (fst pb) - valof (fst pd); bdy = valof (snd pb) - valof (snd pd);
          cdx = valof (fst pc) - valof (fst pd); cdy = valof (snd pc) - valof (snd pd)
      in (adx * adx + ady * ady) * (bdx * cdy - cdx * bdy)
         + (bdx * bdx + bdy * bdy) * (cdx * ady - adx * cdy)
         + (cdx * cdx + cdy * cdy) * (adx * bdy - bdx * ady))"

section \<open>The table after initialisation\<close>

text \<open>The values \<open>exactinit\<close> leaves in the fifteen members (see \<open>exactinit_initialized\<close>).\<close>

definition initialized :: predicates where
  "initialized =
     \<lparr> epsilon = Fin 1 (- 53), splitter = Fin 134217729 0,
       resulterrbound = Fin 3377699720527873 (- 103),
       ccwerrboundA = Fin 1688849860263937 (- 102),
       ccwerrboundB = Fin 4503599627370499 (- 104),
       ccwerrboundC = Fin 1266637395197953 (- 153),
       o3derrboundA = Fin 7881299347898375 (- 103),
       o3derrboundB = Fin 6755399441055751 (- 104),
       o3derrboundC = Fin 7318349394477065 (- 154),
       iccerrboundA = Fin 2814749767106563 (- 101),
       iccerrboundB = Fin 2251799813685251 (- 102),
       iccerrboundC = Fin 6192449487634441 (- 153),
       isperrboundA = Fin 4503599627370503 (- 101),
       isperrboundB = Fin 5629499534213129 (- 103),
       isperrboundC = Fin 4996180836614155 (- 152) \<rparr>"


section \<open>Member functions as computations on the object\<close>

text \<open>
  A member function of \<open>Predicates\<close> runs on the object it is called on, whose state is
  the table of fifteen members. Here a member function is a computation in the state monad
  over that table: it is given the object, and yields its value and the object it leaves.
  Reading a member is \<open>member\<close>; an assignment to a member would replace the state, and
  the bodies of \<open>orient2d\<close>, \<open>incircle\<close> and of the functions they call have none, they
  assign to their locals and to the arrays they are passed. The statements are those of
  the sections above, in the same order; the functions and macros whose text names no
  member (\<open>Two_Sum\<close>, \<open>Two_Two_Diff\<close>, \<open>fast_expansion_sum_zeroelim\<close>, \<open>estimate\<close>, ...)
  are the functions defined there.
\<close>

type_synonym 'a computation = "(predicates, 'a) state"

abbreviation yield :: "'a \<Rightarrow> 'a computation" where
  "yield \<equiv> State_Monad.return"

definition member :: "(predicates \<Rightarrow> 'a) \<Rightarrow> 'a computation" where
  "member field = do { P \<leftarrow> State_Monad.get; yield (field P) }"

text \<open>The macros that read the member \<open>splitter\<close>.\<close>

definition tSPLIT_m :: "tREAL \<Rightarrow> (tREAL \<times> tREAL) computation" where
  "tSPLIT_m a =
     do {
       spl \<leftarrow> member splitter;
       let c = fmul spl a;
       let abig = fsub c a;
       let ahi = fsub c abig;
       let alo = fsub a ahi;
       yield (ahi, alo)
     }"

definition Two_Product_Presplit_m ::
  "tREAL \<Rightarrow> tREAL \<Rightarrow> tREAL \<Rightarrow> tREAL \<Rightarrow> (tREAL \<times> tREAL) computation" where
  "Two_Product_Presplit_m a b bhi blo =
     do {
       let x = fmul a b;
       (ahi, alo) \<leftarrow> tSPLIT_m a;
       let err1 = fsub x (fmul ahi bhi);
       let err2 = fsub err1 (fmul alo bhi);
       let err3 = fsub err2 (fmul ahi blo);
       let y = fsub (fmul alo blo) err3;
       yield (x, y)
     }"

definition Two_Product_m :: "tREAL \<Rightarrow> tREAL \<Rightarrow> (tREAL \<times> tREAL) computation" where
  "Two_Product_m a b =
     do {
       let x = fmul a b;
       (ahi, alo) \<leftarrow> tSPLIT_m a;
       (bhi, blo) \<leftarrow> tSPLIT_m b;
       let err1 = fsub x (fmul ahi bhi);
       let err2 = fsub err1 (fmul alo bhi);
       let err3 = fsub err2 (fmul ahi blo);
       let y = fsub (fmul alo blo) err3;
       yield (x, y)
     }"

definition Square_m :: "tREAL \<Rightarrow> (tREAL \<times> tREAL) computation" where
  "Square_m a =
     do {
       let x = fmul a a;
       (ahi, alo) \<leftarrow> tSPLIT_m a;
       let err1 = fsub x (fmul ahi ahi);
       let err3 = fsub err1 (fmul (fadd ahi ahi) alo);
       let y = fsub (fmul alo alo) err3;
       yield (x, y)
     }"

subsection \<open>scale_expansion_zeroelim on the object\<close>

fun scale_zeroelim_loop_m ::
  "tREAL \<Rightarrow> tREAL \<Rightarrow> tREAL \<Rightarrow> tREAL list \<Rightarrow> tREAL \<Rightarrow> tREAL list \<Rightarrow>
   (tREAL \<times> tREAL list) computation" where
  "scale_zeroelim_loop_m b bhi blo [] Q h = yield (Q, h)"
| "scale_zeroelim_loop_m b bhi blo (enow # es) Q h =
     do {
       (product1, product0) \<leftarrow> Two_Product_Presplit_m enow b bhi blo;
       let (sum, hh) = Two_Sum Q product0;
       let h = put_nonzero h hh;
       let (Q', hh) = Fast_Two_Sum product1 sum;
       let h = put_nonzero h hh;
       scale_zeroelim_loop_m b bhi blo es Q' h
     }"

definition scale_expansion_zeroelim_m :: "tREAL list \<Rightarrow> tREAL \<Rightarrow> tREAL list computation" where
  "scale_expansion_zeroelim_m e b =
     do {
       (bhi, blo) \<leftarrow> tSPLIT_m b;
       (Q, hh) \<leftarrow> Two_Product_Presplit_m (rd e 0) b bhi blo;
       let h = put_nonzero [] hh;
       (Q, h) \<leftarrow> scale_zeroelim_loop_m b bhi blo (tl e) Q h;
       yield (put_last h Q)
     }"

subsection \<open>orient2d on the object\<close>

definition orient2dadapt_m :: "point \<Rightarrow> point \<Rightarrow> point \<Rightarrow> tREAL \<Rightarrow> tREAL computation" where
  "orient2dadapt_m pa pb pc detsum =
     do {
       let acx = fsub (fst pa) (fst pc);
       let bcx = fsub (fst pb) (fst pc);
       let acy = fsub (snd pa) (snd pc);
       let bcy = fsub (snd pb) (snd pc);
       (detleft, detlefttail) \<leftarrow> Two_Product_m acx bcy;
       (detright, detrighttail) \<leftarrow> Two_Product_m acy bcx;
       let (B3, B2, B1, B0) = Two_Two_Diff detleft detlefttail detright detrighttail;
       let B = [B0, B1, B2, B3];
       let det = estimate B;
       boundB \<leftarrow> member ccwerrboundB;
       let errbound = fmul boundB detsum;
       if fge det errbound \<or> fge (fneg det) errbound then yield det
       else do {
         let acxtail = Two_Diff_Tail (fst pa) (fst pc) acx;
         let bcxtail = Two_Diff_Tail (fst pb) (fst pc) bcx;
         let acytail = Two_Diff_Tail (snd pa) (snd pc) acy;
         let bcytail = Two_Diff_Tail (snd pb) (snd pc) bcy;
         if feq acxtail zero \<and> feq acytail zero \<and>
            feq bcxtail zero \<and> feq bcytail zero then yield det
         else do {
           boundC \<leftarrow> member ccwerrboundC;
           rbound \<leftarrow> member resulterrbound;
           let errbound = fadd (fmul boundC detsum) (fmul rbound (Absolute det));
           let det = fadd det
                       (fsub (fadd (fmul acx bcytail) (fmul bcy acxtail))
                             (fadd (fmul acy bcxtail) (fmul bcx acytail)));
           if fge det errbound \<or> fge (fneg det) errbound then yield det
           else do {
             (s1, s0) \<leftarrow> Two_Product_m acxtail bcy;
             (t1, t0) \<leftarrow> Two_Product_m acytail bcx;
             let (u3, u2, u1, u0) = Two_Two_Diff s1 s0 t1 t0;
             let u = [u0, u1, u2, u3];
             let C1 = fast_expansion_sum_zeroelim B u;
             (s1, s0) \<leftarrow> Two_Product_m acx bcytail;
             (t1, t0) \<leftarrow> Two_Product_m acy bcxtail;
             let (u3, u2, u1, u0) = Two_Two_Diff s1 s0 t1 t0;
             let u = [u0, u1, u2, u3];
             let C2 = fast_expansion_sum_zeroelim C1 u;
             (s1, s0) \<leftarrow> Two_Product_m acxtail bcytail;
             (t1, t0) \<leftarrow> Two_Product_m acytail bcxtail;
             let (u3, u2, u1, u0) = Two_Two_Diff s1 s0 t1 t0;
             let u = [u0, u1, u2, u3];
             let D = fast_expansion_sum_zeroelim C2 u;
             yield (rd D (length D - 1))
           }
         }
       }
     }"

definition orient2d_m :: "point \<Rightarrow> point \<Rightarrow> point \<Rightarrow> tREAL computation" where
  "orient2d_m pa pb pc =
     do {
       let detleft = fmul (fsub (fst pa) (fst pc)) (fsub (snd pb) (snd pc));
       let detright = fmul (fsub (snd pa) (snd pc)) (fsub (fst pb) (fst pc));
       let det = fsub detleft detright;
       case (if fgt detleft zero then
               (if fle detright zero then None else Some (fadd detleft detright))
             else if flt detleft zero then
               (if fge detright zero then None else Some (fsub (fneg detleft) detright))
             else None) of
         None \<Rightarrow> yield det
       | Some detsum \<Rightarrow>
           do {
             boundA \<leftarrow> member ccwerrboundA;
             let errbound = fmul boundA detsum;
             if fge det errbound \<or> fge (fneg det) errbound then yield det
             else orient2dadapt_m pa pb pc detsum
           }
     }"

subsection \<open>incircle on the object\<close>

definition incircleadapt_m ::
  "point \<Rightarrow> point \<Rightarrow> point \<Rightarrow> point \<Rightarrow> tREAL \<Rightarrow> tREAL computation" where
  "incircleadapt_m pa pb pc pd permanent =
     do {
       let adx = fsub (fst pa) (fst pd);
       let bdx = fsub (fst pb) (fst pd);
       let cdx = fsub (fst pc) (fst pd);
       let ady = fsub (snd pa) (snd pd);
       let bdy = fsub (snd pb) (snd pd);
       let cdy = fsub (snd pc) (snd pd);
       (bdxcdy1, bdxcdy0) \<leftarrow> Two_Product_m bdx cdy;
       (cdxbdy1, cdxbdy0) \<leftarrow> Two_Product_m cdx bdy;
       let (bc3, bc2, bc1, bc0) = Two_Two_Diff bdxcdy1 bdxcdy0 cdxbdy1 cdxbdy0;
       let bc = [bc0, bc1, bc2, bc3];
       axbc \<leftarrow> scale_expansion_zeroelim_m bc adx;
       axxbc \<leftarrow> scale_expansion_zeroelim_m axbc adx;
       aybc \<leftarrow> scale_expansion_zeroelim_m bc ady;
       ayybc \<leftarrow> scale_expansion_zeroelim_m aybc ady;
       let adet = fast_expansion_sum_zeroelim axxbc ayybc;
       (cdxady1, cdxady0) \<leftarrow> Two_Product_m cdx ady;
       (adxcdy1, adxcdy0) \<leftarrow> Two_Product_m adx cdy;
       let (ca3, ca2, ca1, ca0) = Two_Two_Diff cdxady1 cdxady0 adxcdy1 adxcdy0;
       let ca = [ca0, ca1, ca2, ca3];
       bxca \<leftarrow> scale_expansion_zeroelim_m ca bdx;
       bxxca \<leftarrow> scale_expansion_zeroelim_m bxca bdx;
       byca \<leftarrow> scale_expansion_zeroelim_m ca bdy;
       byyca \<leftarrow> scale_expansion_zeroelim_m byca bdy;
       let bdet = fast_expansion_sum_zeroelim bxxca byyca;
       (adxbdy1, adxbdy0) \<leftarrow> Two_Product_m adx bdy;
       (bdxady1, bdxady0) \<leftarrow> Two_Product_m bdx ady;
       let (ab3, ab2, ab1, ab0) = Two_Two_Diff adxbdy1 adxbdy0 bdxady1 bdxady0;
       let ab = [ab0, ab1, ab2, ab3];
       cxab \<leftarrow> scale_expansion_zeroelim_m ab cdx;
       cxxab \<leftarrow> scale_expansion_zeroelim_m cxab cdx;
       cyab \<leftarrow> scale_expansion_zeroelim_m ab cdy;
       cyyab \<leftarrow> scale_expansion_zeroelim_m cyab cdy;
       let cdet = fast_expansion_sum_zeroelim cxxab cyyab;
       let abdet = fast_expansion_sum_zeroelim adet bdet;
       let fin1 = fast_expansion_sum_zeroelim abdet cdet;
       let det = estimate fin1;
       boundB \<leftarrow> member iccerrboundB;
       let errbound = fmul boundB permanent;
       if fge det errbound \<or> fge (fneg det) errbound then yield det
       else do {
         let adxtail = Two_Diff_Tail (fst pa) (fst pd) adx;
         let adytail = Two_Diff_Tail (snd pa) (snd pd) ady;
         let bdxtail = Two_Diff_Tail (fst pb) (fst pd) bdx;
         let bdytail = Two_Diff_Tail (snd pb) (snd pd) bdy;
         let cdxtail = Two_Diff_Tail (fst pc) (fst pd) cdx;
         let cdytail = Two_Diff_Tail (snd pc) (snd pd) cdy;
         if feq adxtail zero \<and> feq bdxtail zero \<and> feq cdxtail zero \<and>
            feq adytail zero \<and> feq bdytail zero \<and> feq cdytail zero then yield det
         else do {
           boundC \<leftarrow> member iccerrboundC;
           rbound \<leftarrow> member resulterrbound;
           let errbound = fadd (fmul boundC permanent) (fmul rbound (Absolute det));
           let det = fadd det
             (fadd
               (fadd
                 (fadd
                   (fmul (fadd (fmul adx adx) (fmul ady ady))
                      (fsub (fadd (fmul bdx cdytail) (fmul cdy bdxtail))
                            (fadd (fmul bdy cdxtail) (fmul cdx bdytail))))
                   (fmul (fmul (dbl 2) (fadd (fmul adx adxtail) (fmul ady adytail)))
                      (fsub (fmul bdx cdy) (fmul bdy cdx))))
                 (fadd
                   (fmul (fadd (fmul bdx bdx) (fmul bdy bdy))
                      (fsub (fadd (fmul cdx adytail) (fmul ady cdxtail))
                            (fadd (fmul cdy adxtail) (fmul adx cdytail))))
                   (fmul (fmul (dbl 2) (fadd (fmul bdx bdxtail) (fmul bdy bdytail)))
                      (fsub (fmul cdx ady) (fmul cdy adx)))))
               (fadd
                 (fmul (fadd (fmul cdx cdx) (fmul cdy cdy))
                    (fsub (fadd (fmul adx bdytail) (fmul bdy adxtail))
                          (fadd (fmul ady bdxtail) (fmul bdx adytail))))
                 (fmul (fmul (dbl 2) (fadd (fmul cdx cdxtail) (fmul cdy cdytail)))
                    (fsub (fmul adx bdy) (fmul ady bdx)))));
           if fge det errbound \<or> fge (fneg det) errbound then yield det
           else do {
                     let s = \<lparr> aa = [], bb = [], cc = [], axtbc = [], aytbc = [],
                               bxtca = [], bytca = [], cxtab = [], cytab = [],
                               bct = [], bctt = [], cat = [], catt = [],
                               abt = [], abtt = [], fin = fin1 \<rparr>;
                     s \<leftarrow> (if fne bdxtail zero \<or> fne bdytail zero
                             \<or> fne cdxtail zero \<or> fne cdytail zero then
                            do {
                              (adxadx1, adxadx0) \<leftarrow> Square_m adx;
                              (adyady1, adyady0) \<leftarrow> Square_m ady;
                              let (aa3, aa2, aa1, aa0) = Two_Two_Sum adxadx1 adxadx0 adyady1
                                  adyady0;
                              let s = s\<lparr>aa := [aa0, aa1, aa2, aa3]\<rparr>;
                              yield s
                            } else yield s);
                     s \<leftarrow> (if fne cdxtail zero \<or> fne cdytail zero
                             \<or> fne adxtail zero \<or> fne adytail zero then
                            do {
                              (bdxbdx1, bdxbdx0) \<leftarrow> Square_m bdx;
                              (bdybdy1, bdybdy0) \<leftarrow> Square_m bdy;
                              let (bb3, bb2, bb1, bb0) = Two_Two_Sum bdxbdx1 bdxbdx0 bdybdy1
                                  bdybdy0;
                              let s = s\<lparr>bb := [bb0, bb1, bb2, bb3]\<rparr>;
                              yield s
                            } else yield s);
                     s \<leftarrow> (if fne adxtail zero \<or> fne adytail zero
                             \<or> fne bdxtail zero \<or> fne bdytail zero then
                            do {
                              (cdxcdx1, cdxcdx0) \<leftarrow> Square_m cdx;
                              (cdycdy1, cdycdy0) \<leftarrow> Square_m cdy;
                              let (cc3, cc2, cc1, cc0) = Two_Two_Sum cdxcdx1 cdxcdx0 cdycdy1
                                  cdycdy0;
                              let s = s\<lparr>cc := [cc0, cc1, cc2, cc3]\<rparr>;
                              yield s
                            } else yield s);
                     s \<leftarrow> (if fne adxtail zero then
                            do {
                              axtbc' \<leftarrow> scale_expansion_zeroelim_m bc adxtail;
                              let s = s\<lparr>axtbc := axtbc'\<rparr>;
                              temp16a \<leftarrow> scale_expansion_zeroelim_m (axtbc s)
                                  (fmul (dbl 2) adx);
                              axtcc \<leftarrow> scale_expansion_zeroelim_m (cc s) adxtail;
                              temp16b \<leftarrow> scale_expansion_zeroelim_m axtcc bdy;
                              axtbb \<leftarrow> scale_expansion_zeroelim_m (bb s) adxtail;
                              temp16c \<leftarrow> scale_expansion_zeroelim_m axtbb (fneg cdy);
                              let temp32a = fast_expansion_sum_zeroelim temp16a temp16b;
                              let temp48 = fast_expansion_sum_zeroelim temp16c temp32a;
                              let finother = fast_expansion_sum_zeroelim (fin s) temp48;
                              let s = s\<lparr>fin := finother\<rparr>;
                              yield s
                            } else yield s);
                     s \<leftarrow> (if fne adytail zero then
                            do {
                              aytbc' \<leftarrow> scale_expansion_zeroelim_m bc adytail;
                              let s = s\<lparr>aytbc := aytbc'\<rparr>;
                              temp16a \<leftarrow> scale_expansion_zeroelim_m (aytbc s)
                                  (fmul (dbl 2) ady);
                              aytbb \<leftarrow> scale_expansion_zeroelim_m (bb s) adytail;
                              temp16b \<leftarrow> scale_expansion_zeroelim_m aytbb cdx;
                              aytcc \<leftarrow> scale_expansion_zeroelim_m (cc s) adytail;
                              temp16c \<leftarrow> scale_expansion_zeroelim_m aytcc (fneg bdx);
                              let temp32a = fast_expansion_sum_zeroelim temp16a temp16b;
                              let temp48 = fast_expansion_sum_zeroelim temp16c temp32a;
                              let finother = fast_expansion_sum_zeroelim (fin s) temp48;
                              let s = s\<lparr>fin := finother\<rparr>;
                              yield s
                            } else yield s);
                     s \<leftarrow> (if fne bdxtail zero then
                            do {
                              bxtca' \<leftarrow> scale_expansion_zeroelim_m ca bdxtail;
                              let s = s\<lparr>bxtca := bxtca'\<rparr>;
                              temp16a \<leftarrow> scale_expansion_zeroelim_m (bxtca s)
                                  (fmul (dbl 2) bdx);
                              bxtaa \<leftarrow> scale_expansion_zeroelim_m (aa s) bdxtail;
                              temp16b \<leftarrow> scale_expansion_zeroelim_m bxtaa cdy;
                              bxtcc \<leftarrow> scale_expansion_zeroelim_m (cc s) bdxtail;
                              temp16c \<leftarrow> scale_expansion_zeroelim_m bxtcc (fneg ady);
                              let temp32a = fast_expansion_sum_zeroelim temp16a temp16b;
                              let temp48 = fast_expansion_sum_zeroelim temp16c temp32a;
                              let finother = fast_expansion_sum_zeroelim (fin s) temp48;
                              let s = s\<lparr>fin := finother\<rparr>;
                              yield s
                            } else yield s);
                     s \<leftarrow> (if fne bdytail zero then
                            do {
                              bytca' \<leftarrow> scale_expansion_zeroelim_m ca bdytail;
                              let s = s\<lparr>bytca := bytca'\<rparr>;
                              temp16a \<leftarrow> scale_expansion_zeroelim_m (bytca s)
                                  (fmul (dbl 2) bdy);
                              bytcc \<leftarrow> scale_expansion_zeroelim_m (cc s) bdytail;
                              temp16b \<leftarrow> scale_expansion_zeroelim_m bytcc adx;
                              bytaa \<leftarrow> scale_expansion_zeroelim_m (aa s) bdytail;
                              temp16c \<leftarrow> scale_expansion_zeroelim_m bytaa (fneg cdx);
                              let temp32a = fast_expansion_sum_zeroelim temp16a temp16b;
                              let temp48 = fast_expansion_sum_zeroelim temp16c temp32a;
                              let finother = fast_expansion_sum_zeroelim (fin s) temp48;
                              let s = s\<lparr>fin := finother\<rparr>;
                              yield s
                            } else yield s);
                     s \<leftarrow> (if fne cdxtail zero then
                            do {
                              cxtab' \<leftarrow> scale_expansion_zeroelim_m ab cdxtail;
                              let s = s\<lparr>cxtab := cxtab'\<rparr>;
                              temp16a \<leftarrow> scale_expansion_zeroelim_m (cxtab s)
                                  (fmul (dbl 2) cdx);
                              cxtbb \<leftarrow> scale_expansion_zeroelim_m (bb s) cdxtail;
                              temp16b \<leftarrow> scale_expansion_zeroelim_m cxtbb ady;
                              cxtaa \<leftarrow> scale_expansion_zeroelim_m (aa s) cdxtail;
                              temp16c \<leftarrow> scale_expansion_zeroelim_m cxtaa (fneg bdy);
                              let temp32a = fast_expansion_sum_zeroelim temp16a temp16b;
                              let temp48 = fast_expansion_sum_zeroelim temp16c temp32a;
                              let finother = fast_expansion_sum_zeroelim (fin s) temp48;
                              let s = s\<lparr>fin := finother\<rparr>;
                              yield s
                            } else yield s);
                     s \<leftarrow> (if fne cdytail zero then
                            do {
                              cytab' \<leftarrow> scale_expansion_zeroelim_m ab cdytail;
                              let s = s\<lparr>cytab := cytab'\<rparr>;
                              temp16a \<leftarrow> scale_expansion_zeroelim_m (cytab s)
                                  (fmul (dbl 2) cdy);
                              cytaa \<leftarrow> scale_expansion_zeroelim_m (aa s) cdytail;
                              temp16b \<leftarrow> scale_expansion_zeroelim_m cytaa bdx;
                              cytbb \<leftarrow> scale_expansion_zeroelim_m (bb s) cdytail;
                              temp16c \<leftarrow> scale_expansion_zeroelim_m cytbb (fneg adx);
                              let temp32a = fast_expansion_sum_zeroelim temp16a temp16b;
                              let temp48 = fast_expansion_sum_zeroelim temp16c temp32a;
                              let finother = fast_expansion_sum_zeroelim (fin s) temp48;
                              let s = s\<lparr>fin := finother\<rparr>;
                              yield s
                            } else yield s);
                     s \<leftarrow> (if fne adxtail zero \<or> fne adytail zero then
                            do {
                              s \<leftarrow> (if fne bdxtail zero
                                      \<or> fne bdytail zero \<or> fne cdxtail zero \<or> fne cdytail zero then
                                     do {
                                       (ti1, ti0) \<leftarrow> Two_Product_m bdxtail cdy;
                                       (tj1, tj0) \<leftarrow> Two_Product_m bdx cdytail;
                                       let (u3, u2, u1, u0) = Two_Two_Sum ti1 ti0 tj1 tj0;
                                       let u = [u0, u1, u2, u3];
                                       let negate = fneg bdy;
                                       (ti1, ti0) \<leftarrow> Two_Product_m cdxtail negate;
                                       let negate = fneg bdytail;
                                       (tj1, tj0) \<leftarrow> Two_Product_m cdx negate;
                                       let (v3, v2, v1, v0) = Two_Two_Sum ti1 ti0 tj1 tj0;
                                       let v = [v0, v1, v2, v3];
                                       let s = s\<lparr>bct := fast_expansion_sum_zeroelim u
                                           v\<rparr>;
                                       (ti1, ti0) \<leftarrow> Two_Product_m bdxtail cdytail;
                                       (tj1, tj0) \<leftarrow> Two_Product_m cdxtail bdytail;
                                       let (bctt3, bctt2, bctt1, bctt0) = Two_Two_Diff ti1 ti0
                                           tj1 tj0;
                                       let s = s\<lparr>bctt := [bctt0, bctt1, bctt2,
                                           bctt3]\<rparr>;
                                       yield s
                                     } else do {
                                       let s = s\<lparr>bct := [zero]\<rparr>;
                                       let s = s\<lparr>bctt := [zero]\<rparr>;
                                       yield s
                                     });
                              s \<leftarrow> (if fne adxtail zero then
                                     do {
                                       temp16a \<leftarrow> scale_expansion_zeroelim_m
                                           (axtbc s) adxtail;
                                       axtbct \<leftarrow> scale_expansion_zeroelim_m (bct s)
                                           adxtail;
                                       temp32a \<leftarrow> scale_expansion_zeroelim_m axtbct
                                           (fmul (dbl 2) adx);
                                       let temp48 = fast_expansion_sum_zeroelim temp16a temp32a;
                                       let finother = fast_expansion_sum_zeroelim (fin s) temp48;
                                       let s = s\<lparr>fin := finother\<rparr>;
                                       s \<leftarrow> (if fne bdytail zero then
                                              do {
                                                temp8 \<leftarrow> scale_expansion_zeroelim_m
                                                    (cc s) adxtail;
                                                temp16a \<leftarrow> scale_expansion_zeroelim_m
                                                    temp8 bdytail;
                                                let finother = fast_expansion_sum_zeroelim
                                                    (fin s) temp16a;
                                                let s = s\<lparr>fin := finother\<rparr>;
                                                yield s
                                              } else yield s);
                                       s \<leftarrow> (if fne cdytail zero then
                                              do {
                                                temp8 \<leftarrow> scale_expansion_zeroelim_m
                                                    (bb s) (fneg adxtail);
                                                temp16a \<leftarrow> scale_expansion_zeroelim_m
                                                    temp8 cdytail;
                                                let finother = fast_expansion_sum_zeroelim
                                                    (fin s) temp16a;
                                                let s = s\<lparr>fin := finother\<rparr>;
                                                yield s
                                              } else yield s);
                                       temp32a \<leftarrow> scale_expansion_zeroelim_m axtbct
                                           adxtail;
                                       axtbctt \<leftarrow> scale_expansion_zeroelim_m (bctt s)
                                           adxtail;
                                       temp16a \<leftarrow> scale_expansion_zeroelim_m axtbctt
                                           (fmul (dbl 2) adx);
                                       temp16b \<leftarrow> scale_expansion_zeroelim_m axtbctt
                                           adxtail;
                                       let temp32b = fast_expansion_sum_zeroelim temp16a temp16b;
                                       let temp64 = fast_expansion_sum_zeroelim temp32a temp32b;
                                       let finother = fast_expansion_sum_zeroelim (fin s) temp64;
                                       let s = s\<lparr>fin := finother\<rparr>;
                                       yield s
                                     } else yield s);
                              s \<leftarrow> (if fne adytail zero then
                                     do {
                                       temp16a \<leftarrow> scale_expansion_zeroelim_m
                                           (aytbc s) adytail;
                                       aytbct \<leftarrow> scale_expansion_zeroelim_m (bct s)
                                           adytail;
                                       temp32a \<leftarrow> scale_expansion_zeroelim_m aytbct
                                           (fmul (dbl 2) ady);
                                       let temp48 = fast_expansion_sum_zeroelim temp16a temp32a;
                                       let finother = fast_expansion_sum_zeroelim (fin s) temp48;
                                       let s = s\<lparr>fin := finother\<rparr>;
                                       temp32a \<leftarrow> scale_expansion_zeroelim_m aytbct
                                           adytail;
                                       aytbctt \<leftarrow> scale_expansion_zeroelim_m (bctt s)
                                           adytail;
                                       temp16a \<leftarrow> scale_expansion_zeroelim_m aytbctt
                                           (fmul (dbl 2) ady);
                                       temp16b \<leftarrow> scale_expansion_zeroelim_m aytbctt
                                           adytail;
                                       let temp32b = fast_expansion_sum_zeroelim temp16a temp16b;
                                       let temp64 = fast_expansion_sum_zeroelim temp32a temp32b;
                                       let finother = fast_expansion_sum_zeroelim (fin s) temp64;
                                       let s = s\<lparr>fin := finother\<rparr>;
                                       yield s
                                     } else yield s);
                              yield s
                            } else yield s);
                     s \<leftarrow> (if fne bdxtail zero \<or> fne bdytail zero then
                            do {
                              s \<leftarrow> (if fne cdxtail zero
                                      \<or> fne cdytail zero \<or> fne adxtail zero \<or> fne adytail zero then
                                     do {
                                       (ti1, ti0) \<leftarrow> Two_Product_m cdxtail ady;
                                       (tj1, tj0) \<leftarrow> Two_Product_m cdx adytail;
                                       let (u3, u2, u1, u0) = Two_Two_Sum ti1 ti0 tj1 tj0;
                                       let u = [u0, u1, u2, u3];
                                       let negate = fneg cdy;
                                       (ti1, ti0) \<leftarrow> Two_Product_m adxtail negate;
                                       let negate = fneg cdytail;
                                       (tj1, tj0) \<leftarrow> Two_Product_m adx negate;
                                       let (v3, v2, v1, v0) = Two_Two_Sum ti1 ti0 tj1 tj0;
                                       let v = [v0, v1, v2, v3];
                                       let s = s\<lparr>cat := fast_expansion_sum_zeroelim u
                                           v\<rparr>;
                                       (ti1, ti0) \<leftarrow> Two_Product_m cdxtail adytail;
                                       (tj1, tj0) \<leftarrow> Two_Product_m adxtail cdytail;
                                       let (catt3, catt2, catt1, catt0) = Two_Two_Diff ti1 ti0
                                           tj1 tj0;
                                       let s = s\<lparr>catt := [catt0, catt1, catt2,
                                           catt3]\<rparr>;
                                       yield s
                                     } else do {
                                       let s = s\<lparr>cat := [zero]\<rparr>;
                                       let s = s\<lparr>catt := [zero]\<rparr>;
                                       yield s
                                     });
                              s \<leftarrow> (if fne bdxtail zero then
                                     do {
                                       temp16a \<leftarrow> scale_expansion_zeroelim_m
                                           (bxtca s) bdxtail;
                                       bxtcat \<leftarrow> scale_expansion_zeroelim_m (cat s)
                                           bdxtail;
                                       temp32a \<leftarrow> scale_expansion_zeroelim_m bxtcat
                                           (fmul (dbl 2) bdx);
                                       let temp48 = fast_expansion_sum_zeroelim temp16a temp32a;
                                       let finother = fast_expansion_sum_zeroelim (fin s) temp48;
                                       let s = s\<lparr>fin := finother\<rparr>;
                                       s \<leftarrow> (if fne cdytail zero then
                                              do {
                                                temp8 \<leftarrow> scale_expansion_zeroelim_m
                                                    (aa s) bdxtail;
                                                temp16a \<leftarrow> scale_expansion_zeroelim_m
                                                    temp8 cdytail;
                                                let finother = fast_expansion_sum_zeroelim
                                                    (fin s) temp16a;
                                                let s = s\<lparr>fin := finother\<rparr>;
                                                yield s
                                              } else yield s);
                                       s \<leftarrow> (if fne adytail zero then
                                              do {
                                                temp8 \<leftarrow> scale_expansion_zeroelim_m
                                                    (cc s) (fneg bdxtail);
                                                temp16a \<leftarrow> scale_expansion_zeroelim_m
                                                    temp8 adytail;
                                                let finother = fast_expansion_sum_zeroelim
                                                    (fin s) temp16a;
                                                let s = s\<lparr>fin := finother\<rparr>;
                                                yield s
                                              } else yield s);
                                       temp32a \<leftarrow> scale_expansion_zeroelim_m bxtcat
                                           bdxtail;
                                       bxtcatt \<leftarrow> scale_expansion_zeroelim_m (catt s)
                                           bdxtail;
                                       temp16a \<leftarrow> scale_expansion_zeroelim_m bxtcatt
                                           (fmul (dbl 2) bdx);
                                       temp16b \<leftarrow> scale_expansion_zeroelim_m bxtcatt
                                           bdxtail;
                                       let temp32b = fast_expansion_sum_zeroelim temp16a temp16b;
                                       let temp64 = fast_expansion_sum_zeroelim temp32a temp32b;
                                       let finother = fast_expansion_sum_zeroelim (fin s) temp64;
                                       let s = s\<lparr>fin := finother\<rparr>;
                                       yield s
                                     } else yield s);
                              s \<leftarrow> (if fne bdytail zero then
                                     do {
                                       temp16a \<leftarrow> scale_expansion_zeroelim_m
                                           (bytca s) bdytail;
                                       bytcat \<leftarrow> scale_expansion_zeroelim_m (cat s)
                                           bdytail;
                                       temp32a \<leftarrow> scale_expansion_zeroelim_m bytcat
                                           (fmul (dbl 2) bdy);
                                       let temp48 = fast_expansion_sum_zeroelim temp16a temp32a;
                                       let finother = fast_expansion_sum_zeroelim (fin s) temp48;
                                       let s = s\<lparr>fin := finother\<rparr>;
                                       temp32a \<leftarrow> scale_expansion_zeroelim_m bytcat
                                           bdytail;
                                       bytcatt \<leftarrow> scale_expansion_zeroelim_m (catt s)
                                           bdytail;
                                       temp16a \<leftarrow> scale_expansion_zeroelim_m bytcatt
                                           (fmul (dbl 2) bdy);
                                       temp16b \<leftarrow> scale_expansion_zeroelim_m bytcatt
                                           bdytail;
                                       let temp32b = fast_expansion_sum_zeroelim temp16a temp16b;
                                       let temp64 = fast_expansion_sum_zeroelim temp32a temp32b;
                                       let finother = fast_expansion_sum_zeroelim (fin s) temp64;
                                       let s = s\<lparr>fin := finother\<rparr>;
                                       yield s
                                     } else yield s);
                              yield s
                            } else yield s);
                     s \<leftarrow> (if fne cdxtail zero \<or> fne cdytail zero then
                            do {
                              s \<leftarrow> (if fne adxtail zero
                                      \<or> fne adytail zero \<or> fne bdxtail zero \<or> fne bdytail zero then
                                     do {
                                       (ti1, ti0) \<leftarrow> Two_Product_m adxtail bdy;
                                       (tj1, tj0) \<leftarrow> Two_Product_m adx bdytail;
                                       let (u3, u2, u1, u0) = Two_Two_Sum ti1 ti0 tj1 tj0;
                                       let u = [u0, u1, u2, u3];
                                       let negate = fneg ady;
                                       (ti1, ti0) \<leftarrow> Two_Product_m bdxtail negate;
                                       let negate = fneg adytail;
                                       (tj1, tj0) \<leftarrow> Two_Product_m bdx negate;
                                       let (v3, v2, v1, v0) = Two_Two_Sum ti1 ti0 tj1 tj0;
                                       let v = [v0, v1, v2, v3];
                                       let s = s\<lparr>abt := fast_expansion_sum_zeroelim u
                                           v\<rparr>;
                                       (ti1, ti0) \<leftarrow> Two_Product_m adxtail bdytail;
                                       (tj1, tj0) \<leftarrow> Two_Product_m bdxtail adytail;
                                       let (abtt3, abtt2, abtt1, abtt0) = Two_Two_Diff ti1 ti0
                                           tj1 tj0;
                                       let s = s\<lparr>abtt := [abtt0, abtt1, abtt2,
                                           abtt3]\<rparr>;
                                       yield s
                                     } else do {
                                       let s = s\<lparr>abt := [zero]\<rparr>;
                                       let s = s\<lparr>abtt := [zero]\<rparr>;
                                       yield s
                                     });
                              s \<leftarrow> (if fne cdxtail zero then
                                     do {
                                       temp16a \<leftarrow> scale_expansion_zeroelim_m
                                           (cxtab s) cdxtail;
                                       cxtabt \<leftarrow> scale_expansion_zeroelim_m (abt s)
                                           cdxtail;
                                       temp32a \<leftarrow> scale_expansion_zeroelim_m cxtabt
                                           (fmul (dbl 2) cdx);
                                       let temp48 = fast_expansion_sum_zeroelim temp16a temp32a;
                                       let finother = fast_expansion_sum_zeroelim (fin s) temp48;
                                       let s = s\<lparr>fin := finother\<rparr>;
                                       s \<leftarrow> (if fne adytail zero then
                                              do {
                                                temp8 \<leftarrow> scale_expansion_zeroelim_m
                                                    (bb s) cdxtail;
                                                temp16a \<leftarrow> scale_expansion_zeroelim_m
                                                    temp8 adytail;
                                                let finother = fast_expansion_sum_zeroelim
                                                    (fin s) temp16a;
                                                let s = s\<lparr>fin := finother\<rparr>;
                                                yield s
                                              } else yield s);
                                       s \<leftarrow> (if fne bdytail zero then
                                              do {
                                                temp8 \<leftarrow> scale_expansion_zeroelim_m
                                                    (aa s) (fneg cdxtail);
                                                temp16a \<leftarrow> scale_expansion_zeroelim_m
                                                    temp8 bdytail;
                                                let finother = fast_expansion_sum_zeroelim
                                                    (fin s) temp16a;
                                                let s = s\<lparr>fin := finother\<rparr>;
                                                yield s
                                              } else yield s);
                                       temp32a \<leftarrow> scale_expansion_zeroelim_m cxtabt
                                           cdxtail;
                                       cxtabtt \<leftarrow> scale_expansion_zeroelim_m (abtt s)
                                           cdxtail;
                                       temp16a \<leftarrow> scale_expansion_zeroelim_m cxtabtt
                                           (fmul (dbl 2) cdx);
                                       temp16b \<leftarrow> scale_expansion_zeroelim_m cxtabtt
                                           cdxtail;
                                       let temp32b = fast_expansion_sum_zeroelim temp16a temp16b;
                                       let temp64 = fast_expansion_sum_zeroelim temp32a temp32b;
                                       let finother = fast_expansion_sum_zeroelim (fin s) temp64;
                                       let s = s\<lparr>fin := finother\<rparr>;
                                       yield s
                                     } else yield s);
                              s \<leftarrow> (if fne cdytail zero then
                                     do {
                                       temp16a \<leftarrow> scale_expansion_zeroelim_m
                                           (cytab s) cdytail;
                                       cytabt \<leftarrow> scale_expansion_zeroelim_m (abt s)
                                           cdytail;
                                       temp32a \<leftarrow> scale_expansion_zeroelim_m cytabt
                                           (fmul (dbl 2) cdy);
                                       let temp48 = fast_expansion_sum_zeroelim temp16a temp32a;
                                       let finother = fast_expansion_sum_zeroelim (fin s) temp48;
                                       let s = s\<lparr>fin := finother\<rparr>;
                                       temp32a \<leftarrow> scale_expansion_zeroelim_m cytabt
                                           cdytail;
                                       cytabtt \<leftarrow> scale_expansion_zeroelim_m (abtt s)
                                           cdytail;
                                       temp16a \<leftarrow> scale_expansion_zeroelim_m cytabtt
                                           (fmul (dbl 2) cdy);
                                       temp16b \<leftarrow> scale_expansion_zeroelim_m cytabtt
                                           cdytail;
                                       let temp32b = fast_expansion_sum_zeroelim temp16a temp16b;
                                       let temp64 = fast_expansion_sum_zeroelim temp32a temp32b;
                                       let finother = fast_expansion_sum_zeroelim (fin s) temp64;
                                       let s = s\<lparr>fin := finother\<rparr>;
                                       yield s
                                     } else yield s);
                              yield s
                            } else yield s);
                     yield (rd (fin s) (length (fin s) - 1))
           }
         }
       }
     }"

definition incircle_m :: "point \<Rightarrow> point \<Rightarrow> point \<Rightarrow> point \<Rightarrow> tREAL computation" where
  "incircle_m pa pb pc pd =
     do {
       let adx = fsub (fst pa) (fst pd);
       let bdx = fsub (fst pb) (fst pd);
       let cdx = fsub (fst pc) (fst pd);
       let ady = fsub (snd pa) (snd pd);
       let bdy = fsub (snd pb) (snd pd);
       let cdy = fsub (snd pc) (snd pd);
       let bdxcdy = fmul bdx cdy;
       let cdxbdy = fmul cdx bdy;
       let alift = fadd (fmul adx adx) (fmul ady ady);
       let cdxady = fmul cdx ady;
       let adxcdy = fmul adx cdy;
       let blift = fadd (fmul bdx bdx) (fmul bdy bdy);
       let adxbdy = fmul adx bdy;
       let bdxady = fmul bdx ady;
       let clift = fadd (fmul cdx cdx) (fmul cdy cdy);
       let det = fadd (fadd (fmul alift (fsub bdxcdy cdxbdy))
                            (fmul blift (fsub cdxady adxcdy)))
                      (fmul clift (fsub adxbdy bdxady));
       let permanent = fadd (fadd (fmul (fadd (Absolute bdxcdy) (Absolute cdxbdy)) alift)
                                  (fmul (fadd (Absolute cdxady) (Absolute adxcdy)) blift))
                            (fmul (fadd (Absolute adxbdy) (Absolute bdxady)) clift);
       boundA \<leftarrow> member iccerrboundA;
       let errbound = fmul boundA permanent;
       if fgt det errbound \<or> fgt (fneg det) errbound then yield det
       else incircleadapt_m pa pb pc pd permanent
     }"

subsection \<open>Sequences of calls\<close>

text \<open>
  A call of a predicate, and a sequence of calls on one object: the values returned, in
  order, and the object after the last call.
\<close>

datatype call = Orient2d point point point | Incircle point point point point

fun perform :: "call \<Rightarrow> tREAL computation" where
  "perform (Orient2d pa pb pc) = orient2d_m pa pb pc"
| "perform (Incircle pa pb pc pd) = incircle_m pa pb pc pd"

definition perform_all :: "call list \<Rightarrow> tREAL list computation" where
  "perform_all cs = State_Monad.traverse_list perform cs"

text \<open>A computation leaves the object as it found it, whatever the object holds.\<close>

definition leaves_object :: "'a computation \<Rightarrow> bool" where
  "leaves_object m = (\<forall>P. snd (run_state m P) = P)"

(*PROPERTIES*)
section \<open>Properties\<close>

subsection \<open>Writes stay inside the output buffer\<close>

lemma wr_Some [simp]: "i < length h \<Longrightarrow> wr h i v = Some (h[i := v])"
  by (simp add: wr_def)

lemma es_first_ok:
  "length e \<le> length h \<Longrightarrow> length e \<le> n \<Longrightarrow>
   \<exists>Q' h'. es_first e i Q h = Some (Q', h') \<and> length h' = length h \<and> drop n h' = drop n h"
proof (induction e i Q h rule: es_first.induct)
  case (1 e hindex Q h)
  show ?case
  proof (cases "hindex < length e")
    case False
    then show ?thesis by (subst es_first.simps) simp
  next
    case True
    obtain Qnew y where ts: "Two_Sum Q (rd e hindex) = (Qnew, y)" by (cases "Two_Sum Q (rd e hindex)")
    have w: "wr h hindex y = Some (h[hindex := y])" using True "1.prems" by simp
    have "\<exists>Q' h'. es_first e (hindex + 1) Qnew (h[hindex := y]) = Some (Q', h') \<and>
            length h' = length (h[hindex := y]) \<and> drop n h' = drop n (h[hindex := y])"
      using "1.IH"[OF True refl refl ts[symmetric] w] "1.prems" by simp
    then show ?thesis
      using True ts w "1.prems" by (subst es_first.simps) (auto simp: Let_def)
  qed
qed

lemma es_inner_ok:
  "hlast < length h \<Longrightarrow> hlast < n \<Longrightarrow>
   \<exists>Q' h'. es_inner hlast i Q h = Some (Q', h') \<and> length h' = length h \<and> drop n h' = drop n h"
proof (induction hlast i Q h rule: es_inner.induct)
  case (1 hlast hindex Q h)
  show ?case
  proof (cases "hindex \<le> hlast")
    case False
    then show ?thesis by (subst es_inner.simps) simp
  next
    case True
    obtain Qnew y where ts: "Two_Sum Q (rd h hindex) = (Qnew, y)" by (cases "Two_Sum Q (rd h hindex)")
    have w: "wr h hindex y = Some (h[hindex := y])" using True "1.prems" by simp
    have "\<exists>Q' h'. es_inner hlast (hindex + 1) Qnew (h[hindex := y]) = Some (Q', h') \<and>
            length h' = length (h[hindex := y]) \<and> drop n h' = drop n (h[hindex := y])"
      using "1.IH"[OF True refl refl ts[symmetric] w] "1.prems" by simp
    then show ?thesis
      using True ts w "1.prems" by (subst es_inner.simps) (auto simp: Let_def)
  qed
qed

lemma es_outer_ok:
  "findex \<le> length f \<Longrightarrow> hlast + (length f - findex) < length h \<Longrightarrow>
   hlast + (length f - findex) < n \<Longrightarrow>
   \<exists>h'. es_outer f findex hlast h = Some (hlast + (length f - findex), h') \<and>
        length h' = length h \<and> drop n h' = drop n h"
proof (induction f findex hlast h rule: es_outer.induct)
  case (1 f findex hlast h)
  show ?case
  proof (cases "findex < length f")
    case False
    then show ?thesis using "1.prems" by (subst es_outer.simps) simp
  next
    case True
    from es_inner_ok[of hlast h n findex "rd f findex"] "1.prems" True
    obtain Q h1 where in1: "es_inner hlast findex (rd f findex) h = Some (Q, h1)"
      and l1: "length h1 = length h" and d1: "drop n h1 = drop n h" by auto
    have w: "wr h1 (hlast + 1) Q = Some (h1[hlast + 1 := Q])"
      using True "1.prems" l1 by simp
    have "\<exists>h'. es_outer f (findex + 1) (hlast + 1) (h1[hlast + 1 := Q]) =
             Some (hlast + 1 + (length f - (findex + 1)), h') \<and>
            length h' = length (h1[hlast + 1 := Q]) \<and> drop n h' = drop n (h1[hlast + 1 := Q])"
      using "1.IH"[OF True in1 refl w] "1.prems" True l1 by simp
    then show ?thesis
      using True in1 w l1 d1 "1.prems" by (subst es_outer.simps) auto
  qed
qed

lemma es_body_ok:
  assumes "f \<noteq> []" "length e + length f \<le> length h"
  shows "\<exists>h'. es_body e f h = Some (length e + length f - 1, h') \<and> length h' = length h \<and>
           drop (length e + length f) h' = drop (length e + length f) h"
proof -
  let ?n = "length e + length f"
  have fl: "1 \<le> length f" using assms(1) by (cases f) auto
  from es_first_ok[of e h ?n 0 "rd f 0"] assms
  obtain Q h1 where a: "es_first e 0 (rd f 0) h = Some (Q, h1)" and l1: "length h1 = length h"
    and d1: "drop ?n h1 = drop ?n h" by auto
  have w: "wr h1 (length e) Q = Some (h1[length e := Q])" using l1 assms fl by simp
  have p1: "1 \<le> length f" by (rule fl)
  have p2: "length e + (length f - 1) < length (h1[length e := Q])" using assms fl l1 by simp
  have p3: "length e + (length f - 1) < ?n" using fl by simp
  from es_outer_ok[OF p1 p2 p3]
  obtain h3 where c: "es_outer f 1 (length e) (h1[length e := Q]) = Some (length e + (length f - 1), h3)"
    and l3: "length h3 = length h" and d3: "drop ?n h3 = drop ?n (h1[length e := Q])"
    using l1 by auto
  have d4: "drop ?n (h1[length e := Q]) = drop ?n h1"
    by (rule drop_update_cancel) (use assms(1) in simp)
  show ?thesis using a w c l3 d3 d4 d1 fl by (simp add: es_body_def)
qed

lemma expansion_sum_ok:
  assumes "e \<noteq> []" "f \<noteq> []" "length e + length f \<le> length h"
  shows "\<exists>h'. expansion_sum e f h = Some (length e + length f, h') \<and> length h' = length h \<and>
           drop (length e + length f) h' = drop (length e + length f) h"
proof -
  have fl: "1 \<le> length f" using assms(2) by (cases f) auto
  from es_body_ok[OF assms(2,3)] obtain h' where
    "es_body e f h = Some (length e + length f - 1, h')" "length h' = length h"
    "drop (length e + length f) h' = drop (length e + length f) h" by auto
  then show ?thesis using fl by (simp add: expansion_sum_def)
qed


subsection \<open>Zero elimination leaves a component\<close>





































text \<open>
  Claim C8. For expansions \<open>e\<close> of \<open>n \<ge> 1\<close> and \<open>f\<close> of \<open>m \<ge> 1\<close> components and a
  buffer \<open>h\<close> of at least \<open>n + m\<close> cells, \<open>expansion_sum\<close> makes no write outside \<open>h\<close>,
  returns \<open>n + m\<close>, and leaves every cell from index \<open>n + m\<close> on as it was.
\<close>

theorem expansion_sum_within_buffer:
  assumes "e \<noteq> []" and "f \<noteq> []" and "length e + length f \<le> length h"
  shows "\<exists>n h'. expansion_sum e f h = Some (n, h') \<and> n \<le> length e + length f \<and>
           length h' = length h \<and>
           drop (length e + length f) h' = drop (length e + length f) h"
  using expansion_sum_ok[OF assms] by auto

theorem expansion_sum_within_buffer_witness:
  "\<exists>n h'. expansion_sum [dbl 1, dbl 2] [dbl 3] [NaN, NaN, NaN, dbl 7] = Some (n, h') \<and>
      n \<le> 3 \<and> length h' = 4 \<and> drop 3 h' = [dbl 7]"
  using expansion_sum_within_buffer[of "[dbl 1, dbl 2]" "[dbl 3]" "[NaN, NaN, NaN, dbl 7]"]
  by (simp add: eval_nat_numeral)

subsection \<open>The generalised predicate\<close>

lemma AdaptDiffOfProdsOfDiffs_orient2dadapt:
  "AdaptDiffOfProdsOfDiffs P (fst pa) (fst pc) (snd pb) (snd pc)
     (snd pa) (snd pc) (fst pb) (fst pc) detsum
   = orient2dadapt P pa pb pc detsum"
  unfolding AdaptDiffOfProdsOfDiffs_def orient2dadapt_def
  by (simp add: Let_def split_def conj_ac)

text \<open>
  Claim C10. Called with the coordinates of \<open>pa\<close>, \<open>pb\<close>, \<open>pc\<close> in the order
  \<open>(pa[0], pc[0], pb[1], pc[1], pa[1], pc[1], pb[0], pc[0])\<close>,
  \<open>DifferenceOfProductsOfDifferences\<close> returns the value \<open>orient2d\<close> returns, on every
  input and for every content of the error-bound table.
\<close>

theorem DifferenceOfProductsOfDifferences_is_orient2d:
  "DifferenceOfProductsOfDifferences P (fst pa) (fst pc) (snd pb) (snd pc)
     (snd pa) (snd pc) (fst pb) (fst pc)
   = orient2d P pa pb pc"
  unfolding DifferenceOfProductsOfDifferences_def orient2d_def
  by (simp add: AdaptDiffOfProdsOfDiffs_orient2dadapt Let_def cong: option.case_cong)


subsection \<open>Initialisation\<close>




subsection \<open>Underflow\<close>

text \<open>
  Claim C1 at the input \<open>a = (2 ^ -600, 0)\<close>, \<open>b = (0, 2 ^ -600)\<close>, \<open>c = (0, 0)\<close>. The points
  are in counterclockwise order (the exact determinant is \<open>2 ^ -1200\<close>), and \<open>orient2d\<close>
  returns zero: \<open>detleft\<close> underflows to zero and the first tier returns \<open>det\<close>.
\<close>

theorem orient2d_underflow:
  "orient2d initialized (Fin 1 (- 600), zero) (zero, Fin 1 (- 600)) (zero, zero) = zero \<and>
   0 < orient_exact (Fin 1 (- 600), zero) (zero, Fin 1 (- 600)) (zero, zero)"
proof -
  have "orient2d initialized (Fin 1 (- 600), zero) (zero, Fin 1 (- 600)) (zero, zero) = zero"
    by code_simp
  moreover have "0 < orient_exact (Fin 1 (- 600), zero) (zero, Fin 1 (- 600)) (zero, zero)"
    by (simp add: orient_exact_def)
  ultimately show ?thesis by simp
qed

text \<open>
  Claim C2 at the input \<open>pa = (2 ^ -269, 2 ^ -270)\<close>, \<open>pb = (0, - 2 ^ -269)\<close>,
  \<open>pc = (3 * 2 ^ -270, 0)\<close>, \<open>pd = (0, 0)\<close>. The points \<open>pa\<close>, \<open>pb\<close>, \<open>pc\<close> are in
  counterclockwise order and \<open>pd\<close> is strictly inside their circle (the exact determinant
  is \<open>6 * 2 ^ -1080\<close>), and \<open>incircle\<close> returns \<open>- 2 ^ -1074\<close> from its first tier: the
  three products of \<open>det\<close> round to \<open>0\<close>, \<open>0\<close> and \<open>- 2 ^ -1074\<close>, and \<open>errbound\<close>
  underflows to zero.
\<close>

theorem incircle_underflow:
  "incircle initialized (Fin 1 (- 269), Fin 1 (- 270)) (zero, Fin (- 1) (- 269)) (Fin 3 (- 270), zero) (zero, zero)
     = Fin (- 1) (- 1074) \<and>
   0 < incircle_exact (Fin 1 (- 269), Fin 1 (- 270)) (zero, Fin (- 1) (- 269)) (Fin 3 (- 270), zero) (zero, zero) \<and>
   0 < orient_exact (Fin 1 (- 269), Fin 1 (- 270)) (zero, Fin (- 1) (- 269)) (Fin 3 (- 270), zero)"
proof -
  have "incircle initialized (Fin 1 (- 269), Fin 1 (- 270)) (zero, Fin (- 1) (- 269)) (Fin 3 (- 270), zero) (zero, zero)
          = Fin (- 1) (- 1074)"
    by code_simp
  moreover have "0 < incircle_exact (Fin 1 (- 269), Fin 1 (- 270)) (zero, Fin (- 1) (- 269)) (Fin 3 (- 270), zero) (zero, zero)"
    by (simp add: incircle_exact_def)
  moreover have "0 < orient_exact (Fin 1 (- 269), Fin 1 (- 270)) (zero, Fin (- 1) (- 269)) (Fin 3 (- 270), zero)"
    by (simp add: orient_exact_def)
  ultimately show ?thesis by simp
qed

subsection \<open>Overflow\<close>

text \<open>
  Claim C6 at inputs whose exact result is a sum of doubles. \<open>scale_expansion\<close> of
  \<open>e = [2 ^ 1000]\<close> by \<open>b = 1\<close> should set \<open>h = be\<close>, and \<open>h = [0, 2 ^ 1000]\<close>
  would; it writes a NaN, because the split of \<open>2 ^ 1000\<close> multiplies it by \<open>splitter\<close>,
  which overflows. \<open>grow_expansion\<close> and \<open>expansion_sum\<close> of \<open>e = [(2 ^ 53 - 1) * 2 ^ 971]\<close>,
  the largest double, and \<open>2 ^ 970\<close> should set \<open>h\<close> to their sum, and
  \<open>h = [2 ^ 970, (2 ^ 53 - 1) * 2 ^ 971]\<close> would; they write a NaN and an infinity. A list
  with such a component has no exact sum.
\<close>

theorem expansion_overflow:
  "scale_expansion (splitter initialized) [Fin 1 1000] (dbl 1) = [NaN, Fin 1 1000] \<and>
   exact_sum (scale_expansion (splitter initialized) [Fin 1 1000] (dbl 1)) = None \<and>
   exact_sum [zero, Fin 1 1000] = Some (valof (dbl 1) * valof (Fin 1 1000)) \<and>
   grow_expansion [Fin 9007199254740991 971] (Fin 1 970) = [NaN, PInf] \<and>
   exact_sum (grow_expansion [Fin 9007199254740991 971] (Fin 1 970)) = None \<and>
   expansion_sum [Fin 9007199254740991 971] [Fin 1 970] [zero, zero] = Some (2, [NaN, PInf]) \<and>
   exact_sum [NaN, PInf] = None \<and>
   exact_sum [Fin 1 970, Fin 9007199254740991 971]
     = Some (valof (Fin 9007199254740991 971) + valof (Fin 1 970))"
proof -
  have s: "scale_expansion (splitter initialized) [Fin 1 1000] (dbl 1) = [NaN, Fin 1 1000]"
    by code_simp
  have g: "grow_expansion [Fin 9007199254740991 971] (Fin 1 970) = [NaN, PInf]"
    by code_simp
  have e: "expansion_sum [Fin 9007199254740991 971] [Fin 1 970] [zero, zero]
             = Some (2, [NaN, PInf])"
    by code_simp
  have "dbl 1 = Fin 1 0" by code_simp
  then have d: "valof (dbl 1) = 1" by simp
  show ?thesis by (simp add: exact_sum_def s g e d)
qed

subsection \<open>Calls on one object\<close>

text \<open>
  Each member function, run on an object \<open>P\<close>, yields the value of the function of the
  sections above at the table \<open>P\<close>, and leaves \<open>P\<close>: by the statements of its body, one
  after the other.
\<close>

lemma run_yield: "run_state (yield x) P = (x, P)"
  by simp

lemma run_member: "run_state (member field) P = (field P, P)"
  by (simp add: member_def)

lemma run_bind_member:
  "run_state (f (field P)) P = (w, P) \<Longrightarrow> run_state (member field \<bind> f) P = (w, P)"
  by (simp add: run_member)

lemma run_bind:
  "run_state m P = (v, P) \<Longrightarrow> (\<And>x. run_state (f x) P = (g x, P)) \<Longrightarrow>
   run_state (m \<bind> f) P = (Let v g, P)"
  by simp

lemma run_bind_value:
  "run_state m P = (v, P) \<Longrightarrow> run_state (f v) P = (w, P) \<Longrightarrow> run_state (m \<bind> f) P = (w, P)"
  by simp

lemma run_Let:
  "(\<And>x. run_state (f x) P = (g x, P)) \<Longrightarrow> run_state (Let e f) P = (Let e g, P)"
  by simp

lemma run_case_prod:
  "(\<And>a b. run_state (f a b) P = (g a b, P)) \<Longrightarrow>
   run_state (case_prod f p) P = (case_prod g p, P)"
  by (cases p) simp

lemma run_if:
  "run_state A P = (a, P) \<Longrightarrow> run_state B P = (b, P) \<Longrightarrow>
   run_state (if c then A else B) P = (if c then a else b, P)"
  by simp

lemma run_case_option:
  "run_state A P = (a, P) \<Longrightarrow> (\<And>x. run_state (f x) P = (g x, P)) \<Longrightarrow>
   run_state (case_option A f v) P = (case_option a g v, P)"
  by (cases v) simp_all

lemma run_tSPLIT_m: "run_state (tSPLIT_m a) P = (tSPLIT (splitter P) a, P)"
  unfolding tSPLIT_m_def tSPLIT_def
  by (rule run_bind_member run_Let run_yield)+

lemma run_Two_Product_Presplit_m:
  "run_state (Two_Product_Presplit_m a b bhi blo) P
     = (Two_Product_Presplit (splitter P) a b bhi blo, P)"
  unfolding Two_Product_Presplit_m_def Two_Product_Presplit_def
  by (rule run_tSPLIT_m run_bind run_Let run_case_prod run_yield)+

lemma run_Two_Product_m:
  "run_state (Two_Product_m a b) P = (Two_Product (splitter P) a b, P)"
  unfolding Two_Product_m_def Two_Product_def
  by (rule run_tSPLIT_m run_bind run_Let run_case_prod run_yield)+

lemma run_Square_m: "run_state (Square_m a) P = (Square (splitter P) a, P)"
  unfolding Square_m_def Square_def
  by (rule run_tSPLIT_m run_bind run_Let run_case_prod run_yield)+

lemma run_scale_zeroelim_loop_m:
  "run_state (scale_zeroelim_loop_m b bhi blo es Q h) P
     = (scale_zeroelim_loop (splitter P) b bhi blo es Q h, P)"
proof (induction es arbitrary: Q h)
  case Nil
  show ?case by simp
next
  case (Cons enow es)
  show ?case
    unfolding scale_zeroelim_loop_m.simps scale_zeroelim_loop.simps
    by (rule Cons.IH run_Two_Product_Presplit_m run_bind run_Let run_case_prod)+
qed

lemma run_scale_expansion_zeroelim_m:
  "run_state (scale_expansion_zeroelim_m e b) P = (scale_expansion_zeroelim (splitter P) e b, P)"
  unfolding scale_expansion_zeroelim_m_def scale_expansion_zeroelim_def
  by (rule run_tSPLIT_m run_Two_Product_Presplit_m run_scale_zeroelim_loop_m
        run_bind run_Let run_case_prod run_yield)+

lemma run_orient2dadapt_m:
  "run_state (orient2dadapt_m pa pb pc detsum) P = (orient2dadapt P pa pb pc detsum, P)"
  unfolding orient2dadapt_m_def orient2dadapt_def
  by (rule run_bind_member run_Two_Product_m run_bind run_Let run_case_prod run_if run_yield)+

lemma run_orient2d_m:
  "run_state (orient2d_m pa pb pc) P = (orient2d P pa pb pc, P)"
  unfolding orient2d_m_def orient2d_def
  by (rule run_bind_member run_orient2dadapt_m run_bind run_Let run_case_prod run_if
        run_case_option run_yield)+

lemma run_incircleadapt_m:
  "run_state (incircleadapt_m pa pb pc pd permanent) P
     = (incircleadapt P pa pb pc pd permanent, P)"
  unfolding incircleadapt_m_def incircleadapt_def
  by (rule run_bind_member run_Two_Product_m run_Square_m run_scale_expansion_zeroelim_m
        run_bind run_bind_value run_Let run_case_prod run_if run_yield)+

lemma run_incircle_m:
  "run_state (incircle_m pa pb pc pd) P = (incircle P pa pb pc pd, P)"
  unfolding incircle_m_def incircle_def
  by (rule run_bind_member run_incircleadapt_m run_bind run_Let run_case_prod run_if
        run_yield)+


lemma run_perform: "snd (run_state (perform c) P) = P"
  by (cases c) (simp_all add: run_orient2d_m run_incircle_m)

lemma run_perform_all:
  "run_state (perform_all cs) P = (map (\<lambda>c. fst (run_state (perform c) P)) cs, P)"
proof (induction cs)
  case Nil
  show ?case by (simp add: perform_all_def)
next
  case (Cons c cs)
  obtain v where v: "run_state (perform c) P = (v, P)"
    using run_perform[of c P] by (cases "run_state (perform c) P") simp
  show ?case using Cons by (simp add: perform_all_def v)
qed

lemma run_perform_value:
  "run_state (perform c) P =
     (case c of Orient2d pa pb pc \<Rightarrow> orient2d P pa pb pc
              | Incircle pa pb pc pd \<Rightarrow> incircle P pa pb pc pd, P)"
  by (cases c) (simp_all add: run_orient2d_m run_incircle_m)

lemma leaves_object_perform_all: "leaves_object (perform_all cs)"
  by (simp add: leaves_object_def run_perform_all)

text \<open>
  Claim C9. In any sequence of \<open>orient2d\<close> and \<open>incircle\<close> calls on one object,
  whatever its table holds, the table is after the last call what it was before the first,
  and two calls with the same arguments return the same value, wherever they stand in the
  sequence.
\<close>

theorem predicate_calls_deterministic:
  "snd (run_state (perform_all cs) P) = P \<and>
   (\<forall>i j. i < length cs \<and> j < length cs \<and> cs ! i = cs ! j \<longrightarrow>
      fst (run_state (perform_all cs) P) ! i = fst (run_state (perform_all cs) P) ! j)"
  by (simp add: run_perform_all)

theorem predicate_calls_deterministic_witness:
  "fst (run_state (perform_all
          [Orient2d (zero, dbl 1) (dbl 2, zero) (dbl 3, dbl 3),
           Incircle (zero, zero) (dbl 1, zero) (zero, dbl 1) (Fin 1 (- 1), Fin 1 (- 2)),
           Orient2d (zero, dbl 1) (dbl 2, zero) (dbl 3, dbl 3)]) initialized) ! 0
   = fst (run_state (perform_all
          [Orient2d (zero, dbl 1) (dbl 2, zero) (dbl 3, dbl 3),
           Incircle (zero, zero) (dbl 1, zero) (zero, dbl 1) (Fin 1 (- 1), Fin 1 (- 2)),
           Orient2d (zero, dbl 1) (dbl 2, zero) (dbl 3, dbl 3)]) initialized) ! 2 \<and>
   run_state (perform_all
          [Orient2d (zero, dbl 1) (dbl 2, zero) (dbl 3, dbl 3),
           Incircle (zero, zero) (dbl 1, zero) (zero, dbl 1) (Fin 1 (- 1), Fin 1 (- 2)),
           Orient2d (zero, dbl 1) (dbl 2, zero) (dbl 3, dbl 3)]) initialized
   = ([Fin 7 0, Fin 7 (- 4), Fin 7 0], initialized)"
proof -
  let ?cs = "[Orient2d (zero, dbl 1) (dbl 2, zero) (dbl 3, dbl 3),
              Incircle (zero, zero) (dbl 1, zero) (zero, dbl 1) (Fin 1 (- 1), Fin 1 (- 2)),
              Orient2d (zero, dbl 1) (dbl 2, zero) (dbl 3, dbl 3)]"
  have "(0::nat) < length ?cs \<and> (2::nat) < length ?cs \<and> ?cs ! 0 = ?cs ! 2" by simp
  then have "fst (run_state (perform_all ?cs) initialized) ! 0
      = fst (run_state (perform_all ?cs) initialized) ! 2"
    using predicate_calls_deterministic[of ?cs initialized] by blast
  moreover have "run_state (perform_all ?cs) initialized
      = ([Fin 7 0, Fin 7 (- 4), Fin 7 0], initialized)"
    by code_simp
  ultimately show ?thesis by blast
qed


subsection \<open>Integers that the arithmetic represents exactly\<close>

text \<open>
  On integers below \<open>2 ^ 53\<close> in magnitude, the operations of the model are the
  operations of the integers, as long as the result stays below \<open>2 ^ 53\<close>.
\<close>

lemma bitlen_bound: "0 \<le> m \<Longrightarrow> m < 2 ^ k \<Longrightarrow> bitlen m \<le> int k"
proof (induction k arbitrary: m)
  case 0
  then have "m = 0" by simp
  then show ?case by (simp add: bitlen.simps)
next
  case (Suc k)
  show ?case
  proof (cases "m \<le> 0")
    case True
    then show ?thesis by (simp add: bitlen.simps)
  next
    case False
    have "m div 2 < 2 ^ k" using Suc.prems by simp
    moreover have "0 \<le> m div 2" using Suc.prems by simp
    ultimately have "bitlen (m div 2) \<le> int k" by (rule Suc.IH[rotated])
    then show ?thesis using False by (subst bitlen.simps) simp
  qed
qed





lemma normd_rep:
  "0 \<le> e \<Longrightarrow> \<exists>m' e'. normd m e = Fin m' e' \<and> 0 \<le> e' \<and> m' * 2 ^ nat e' = m * 2 ^ nat e \<and>
      (m' = 0 \<longrightarrow> e' = 0)"
proof (induction m e rule: normd.induct)
  case (1 m e)
  show ?case
  proof (cases "m = 0 \<or> odd m")
    case True
    then show ?thesis using "1.prems" by (auto simp: normd.simps[of m])
  next
    case False
    then obtain m' e' where r: "normd (m div 2) (e + 1) = Fin m' e'" "0 \<le> e'"
       "m' * 2 ^ nat e' = (m div 2) * 2 ^ nat (e + 1)" "m' = 0 \<longrightarrow> e' = 0"
      using "1.IH" "1.prems" by force
    have "(m div 2) * 2 ^ nat (e + 1) = m * 2 ^ nat e"
      using False "1.prems" by (simp add: nat_add_distrib)
    then show ?thesis using r False by (simp add: normd.simps[of m])
  qed
qed

lemma rnd_exact:
  assumes "0 \<le> e" "e \<le> 900" "\<bar>M\<bar> < 2 ^ 53"
  shows "rnd M e = normd M e"
proof -
  have b: "bitlen \<bar>M\<bar> \<le> 53" using bitlen_bound[of "\<bar>M\<bar>" 53] assms by simp
  have k: "max (bitlen \<bar>M\<bar> - 53) (- 1074 - e) \<le> 0" using b assms by simp
  have o: "\<not> bitlen \<bar>M\<bar> + e > 1024" using b assms by simp
  have "rnd M e = overflow_check M e"
    unfolding rnd_def Let_def using k by (simp only: if_True)
  also have "\<dots> = normd M e"
    using o by (cases "M = 0") (simp_all add: overflow_check_def normd.simps[of 0])
  finally show ?thesis .
qed

lemma dbl_normd: "\<bar>a\<bar> < 2 ^ 53 \<Longrightarrow> dbl a = normd a 0"
  by (simp add: dbl_def rnd_exact)


lemma dbl_rep:
  assumes "\<bar>a\<bar> < 2 ^ 53"
  shows "\<exists>m e. dbl a = Fin m e \<and> 0 \<le> e \<and> e \<le> 52 \<and> m * 2 ^ nat e = a \<and> (m = 0 \<longrightarrow> e = 0)"
proof -
  from normd_rep[of 0 a] obtain m e where r: "normd a 0 = Fin m e" "0 \<le> e" "m * 2 ^ nat e = a"
     "m = 0 \<longrightarrow> e = 0" by auto
  have "e \<le> 52"
  proof (cases "m = 0")
    case True then show ?thesis using r by simp
  next
    case False
    then have "1 \<le> \<bar>m\<bar>" by simp
    then have "(2::int) ^ nat e \<le> \<bar>m\<bar> * 2 ^ nat e" by simp
    also have "\<dots> = \<bar>a\<bar>" using r(3)[symmetric] by (simp add: abs_mult)
    finally have "(2::int) ^ nat e < 2 ^ 53" using assms by simp
    then have "nat e < 53" by (rule power_less_imp_less_exp[rotated]) simp
    then show ?thesis by simp
  qed
  then show ?thesis using r assms by (auto simp: dbl_normd)
qed






lemma flt_dbl:
  assumes "\<bar>a\<bar> < 2 ^ 53" "\<bar>b\<bar> < 2 ^ 53"
  shows "flt (dbl a) (dbl b) = (a < b)"
proof -
  from dbl_rep[OF assms(1)] obtain m1 e1 where a: "dbl a = Fin m1 e1" "0 \<le> e1" "e1 \<le> 52"
    "m1 * 2 ^ nat e1 = a" by auto
  from dbl_rep[OF assms(2)] obtain m2 e2 where b: "dbl b = Fin m2 e2" "0 \<le> e2" "e2 \<le> 52"
    "m2 * 2 ^ nat e2 = b" by auto
  let ?e = "min e1 e2"
  have p1: "(2::int) ^ nat (e1 - ?e) * 2 ^ nat ?e = 2 ^ nat e1"
    using a(2) b(2) by (simp add: power_add[symmetric] nat_add_distrib[symmetric] del: power_add)
  have p2: "(2::int) ^ nat (e2 - ?e) * 2 ^ nat ?e = 2 ^ nat e2"
    using a(2) b(2) by (simp add: power_add[symmetric] nat_add_distrib[symmetric] del: power_add)
  have "(m1 * 2 ^ nat (e1 - ?e) < m2 * 2 ^ nat (e2 - ?e))
        = (m1 * 2 ^ nat (e1 - ?e) * 2 ^ nat ?e < m2 * 2 ^ nat (e2 - ?e) * 2 ^ nat ?e)"
    by simp
  also have "\<dots> = (a < b)" using p1 p2 a(4) b(4) by (simp add: mult.assoc)
  finally show ?thesis using a(1) b(1) by (simp add: Let_def)
qed

lemma dbl_inj:
  assumes "\<bar>a\<bar> < 2 ^ 53" "\<bar>b\<bar> < 2 ^ 53"
  shows "(dbl a = dbl b) = (a = b)"
proof -
  from dbl_rep[OF assms(1)] obtain m1 e1 where a: "dbl a = Fin m1 e1" "m1 * 2 ^ nat e1 = a" by auto
  from dbl_rep[OF assms(2)] obtain m2 e2 where b: "dbl b = Fin m2 e2" "m2 * 2 ^ nat e2 = b" by auto
  show ?thesis
  proof
    assume "dbl a = dbl b"
    then have "m1 = m2" and "e1 = e2" using a(1) b(1) by simp_all
    then show "a = b" using a(2) b(2) by simp
  next
    assume "a = b"
    then show "dbl a = dbl b" by simp
  qed
qed

lemma feq_dbl:
  assumes "\<bar>a\<bar> < 2 ^ 53" "\<bar>b\<bar> < 2 ^ 53"
  shows "feq (dbl a) (dbl b) = (a = b)"
proof -
  from dbl_rep[OF assms(1)] obtain m1 e1 where a: "dbl a = Fin m1 e1" "0 \<le> e1" "e1 \<le> 52"
    "m1 * 2 ^ nat e1 = a" by auto
  from dbl_rep[OF assms(2)] obtain m2 e2 where b: "dbl b = Fin m2 e2" "0 \<le> e2" "e2 \<le> 52"
    "m2 * 2 ^ nat e2 = b" by auto
  let ?e = "min e1 e2"
  have p1: "(2::int) ^ nat (e1 - ?e) * 2 ^ nat ?e = 2 ^ nat e1"
    using a(2) b(2) by (simp add: power_add[symmetric] nat_add_distrib[symmetric] del: power_add)
  have p2: "(2::int) ^ nat (e2 - ?e) * 2 ^ nat ?e = 2 ^ nat e2"
    using a(2) b(2) by (simp add: power_add[symmetric] nat_add_distrib[symmetric] del: power_add)
  have "(m1 * 2 ^ nat (e1 - ?e) = m2 * 2 ^ nat (e2 - ?e))
        = (m1 * 2 ^ nat (e1 - ?e) * 2 ^ nat ?e = m2 * 2 ^ nat (e2 - ?e) * 2 ^ nat ?e)"
    by simp
  also have "\<dots> = (a = b)" using p1 p2 a(4) b(4) by (simp add: mult.assoc)
  finally show ?thesis using a(1) b(1) by (simp add: Let_def)
qed














subsection \<open>Cyclic rotation and exchange of the arguments of orient2d\<close>




text \<open>
  Claim C5 at the input \<open>a = (2 ^ 700, 2 ^ 700)\<close>, \<open>b = (2 ^ 700, 2 ^ 701)\<close>,
  \<open>c = (0, 0)\<close>. The points \<open>a\<close>, \<open>b\<close>, \<open>c\<close> are in counterclockwise order (the
  exact determinant is \<open>2 ^ 1400\<close>) and \<open>b\<close>, \<open>a\<close>, \<open>c\<close> in clockwise order, so
  \<open>orient2d\<close> is to return a positive value for the first and a negative value for the
  second. Both products overflow, \<open>orient2d\<close> returns a NaN for either order, and the
  comparison \<open>orient2d(a, b, c) == - orient2d(b, a, c)\<close> is false.
\<close>

theorem orient2d_antisymmetry_nan:
  "orient2d initialized (Fin 1 700, Fin 1 700) (Fin 1 700, Fin 1 701) (zero, zero) = NaN \<and>
   orient2d initialized (Fin 1 700, Fin 1 701) (Fin 1 700, Fin 1 700) (zero, zero) = NaN \<and>
   \<not> feq (orient2d initialized (Fin 1 700, Fin 1 700) (Fin 1 700, Fin 1 701) (zero, zero))
         (fneg (orient2d initialized (Fin 1 700, Fin 1 701) (Fin 1 700, Fin 1 700) (zero, zero))) \<and>
   0 < orient_exact (Fin 1 700, Fin 1 700) (Fin 1 700, Fin 1 701) (zero, zero) \<and>
   orient_exact (Fin 1 700, Fin 1 701) (Fin 1 700, Fin 1 700) (zero, zero) < 0"
proof -
  have "orient2d initialized (Fin 1 700, Fin 1 700) (Fin 1 700, Fin 1 701) (zero, zero) = NaN \<and>
     orient2d initialized (Fin 1 700, Fin 1 701) (Fin 1 700, Fin 1 700) (zero, zero) = NaN \<and>
     \<not> feq (orient2d initialized (Fin 1 700, Fin 1 700) (Fin 1 700, Fin 1 701) (zero, zero))
         (fneg (orient2d initialized (Fin 1 700, Fin 1 701) (Fin 1 700, Fin 1 700) (zero, zero)))"
    by code_simp
  moreover have "0 < orient_exact (Fin 1 700, Fin 1 700) (Fin 1 700, Fin 1 701) (zero, zero) \<and>
     orient_exact (Fin 1 700, Fin 1 701) (Fin 1 700, Fin 1 700) (zero, zero) < 0"
    by (simp add: orient_exact_def)
  ultimately show ?thesis by blast
qed

end
